theory Spec2Isabelle
  imports Complex_Main "HOL-Library.Stream" "HOL-Library.Sublist" "HOL-Library.Multiset"
    "HOL-Library.AList" "HOL-Library.Log_Nat"
begin

section \<open>Python values and exceptions\<close>

text \<open>
  The module \<^verbatim>\<open>brick_libs.py\<close> is Python 2 code (the tests of the repository call
  \<^verbatim>\<open>im_func\<close>, and nothing imports \<^verbatim>\<open>division\<close>), so \<^verbatim>\<open>/\<close> between integers is
  floor division and the library is that of Python 2.7.

  The functions handle untyped data: quorum and type
  information arrive as dictionaries whose values are \<^verbatim>\<open>None\<close>, booleans, integers,
  text or lists of brick names. The values are modelled by one datatype, the dictionaries
  by association lists read with \<open>map_of\<close> and written with \<open>AList.update\<close> (which,
  like an assignment to a key, keeps the position of a key already there), and every
  exception the code can raise by a constructor of \<open>py_error\<close>; a function that can
  raise returns \<open>py_error + 'a\<close>.
\<close>

datatype py_error = TypeError | ValueError | KeyError | OverflowError

type_synonym brick = string

datatype pyval = PyNone | PyBool bool | PyInt int | PyStr string | PyList "brick list"

type_synonym 'v dict = "(string \<times> 'v) list"

text \<open>\<^verbatim>\<open>d[k]\<close>: the value stored under \<open>k\<close>, or \<^verbatim>\<open>KeyError\<close>.\<close>

definition subscript :: "'v dict \<Rightarrow> string \<Rightarrow> py_error + 'v" where
  "subscript d k = (case map_of d k of None \<Rightarrow> Inl KeyError | Some v \<Rightarrow> Inr v)"

text \<open>Truth value of an object, as tested by \<^verbatim>\<open>if x:\<close>.\<close>

fun py_truthy :: "pyval \<Rightarrow> bool" where
  "py_truthy PyNone = False"
| "py_truthy (PyBool b) = b"
| "py_truthy (PyInt i) = (i \<noteq> 0)"
| "py_truthy (PyStr s) = (s \<noteq> [])"
| "py_truthy (PyList l) = (l \<noteq> [])"

text \<open>
  \<^verbatim>\<open>'fixed' in quorum_type\<close>: a substring test when the right operand is text,
  membership when it is a list, and a \<^verbatim>\<open>TypeError\<close> (argument is not iterable)
  when it is \<^verbatim>\<open>None\<close>, a boolean or an integer.
\<close>

fun py_in :: "string \<Rightarrow> pyval \<Rightarrow> py_error + bool" where
  "py_in sub (PyStr s) = Inr (sublist sub s)"
| "py_in sub (PyList l) = Inr (sub \<in> set l)"
| "py_in sub v = Inl TypeError"

text \<open>
  \<^verbatim>\<open>int(x)\<close>. An integer is returned as it is, a boolean as 0 or 1,
  \<^verbatim>\<open>None\<close> and a list raise \<^verbatim>\<open>TypeError\<close>. Text (a byte string) is read as a
  decimal literal: the blanks of the C locale are stripped on both sides, one sign is
  allowed, and digits follow; anything else raises \<^verbatim>\<open>ValueError\<close>.
\<close>

definition is_space :: "char \<Rightarrow> bool" where
  "is_space c = (c \<in> set [CHR 0x20, CHR 0x09, CHR 0x0A, CHR 0x0B, CHR 0x0C, CHR 0x0D])"

definition is_digit :: "char \<Rightarrow> bool" where
  "is_digit c = (48 \<le> (of_char c :: nat) \<and> (of_char c :: nat) \<le> 57)"

definition digit_val :: "char \<Rightarrow> int" where
  "digit_val c = int (of_char c) - 48"

fun int_digits :: "int \<Rightarrow> string \<Rightarrow> int option" where
  "int_digits acc [] = Some acc"
| "int_digits acc (c # cs) =
     (if is_digit c then int_digits (10 * acc + digit_val c) cs else None)"

definition int_literal :: "string \<Rightarrow> int option" where
  "int_literal s =
     (case s of
        [] \<Rightarrow> None
      | c # cs \<Rightarrow> if is_digit c then int_digits (digit_val c) cs else None)"

definition strip :: "string \<Rightarrow> string" where
  "strip s = rev (dropWhile is_space (rev (dropWhile is_space s)))"

definition int_of_text :: "string \<Rightarrow> int option" where
  "int_of_text s =
     (case strip s of
        [] \<Rightarrow> None
      | c # cs \<Rightarrow>
          if c = CHR ''-'' then map_option uminus (int_literal cs)
          else if c = CHR ''+'' then int_literal cs
          else int_literal (c # cs))"

fun py_int :: "pyval \<Rightarrow> py_error + int" where
  "py_int (PyInt i) = Inr i"
| "py_int (PyBool b) = Inr (if b then 1 else 0)"
| "py_int PyNone = Inl TypeError"
| "py_int (PyList l) = Inl TypeError"
| "py_int (PyStr s) = (case int_of_text s of None \<Rightarrow> Inl ValueError | Some i \<Rightarrow> Inr i)"

section \<open>Integers and floats\<close>

text \<open>
  \<^verbatim>\<open>math.ceil\<close> returns a float, so the limit of the selector is an integer or a
  float. The only floats that arise are whole numbers; \<open>PyFloatNum i\<close> is the float whose
  value is the integer \<open>i\<close>.
\<close>

datatype pynum = PyIntNum int | PyFloatNum int

text \<open>
  The conversion of an integer to a float (a double): exact up to \<open>2\<^sup>5\<^sup>3\<close>, beyond
  that rounded to 53 significant bits, a tie going to the even neighbour, and an
  \<^verbatim>\<open>OverflowError\<close> when the rounded value does not fit. The result is given by its
  integer value.
\<close>

definition float_of_int :: "int \<Rightarrow> py_error + int" where
  "float_of_int x =
     (let a = \<bar>x\<bar> in
      if a \<le> 2 ^ 53 then Inr x
      else
        (let p = 2 ^ nat (bitlen a - 53); q = a div p; r = a mod p; h = p div 2;
             m = (if r > h \<or> (r = h \<and> odd q) then q + 1 else q)
         in if m * p \<ge> 2 ^ 1024 then Inl OverflowError else Inr (sgn x * (m * p))))"

section \<open>The random source\<close>

text \<open>
  The module draws from the process-wide generator of the standard \<^verbatim>\<open>random\<close>
  module. The generator is modelled as an explicit stream of natural numbers that every
  call consumes from the front. Where the library draws a number below \<open>n\<close>, by
  \<^verbatim>\<open>int(random() * n)\<close> or by \<^verbatim>\<open>_randbelow(n)\<close>, the model reduces the next number
  of the stream modulo \<open>n\<close>, so that each value below \<open>n\<close> is the outcome for some
  stream, and a statement proved for every stream holds for every run of the generator.

  \<^verbatim>\<open>shuffle\<close>, \<^verbatim>\<open>randint\<close> and \<^verbatim>\<open>sample\<close> follow the library:
  \<^verbatim>\<open>
  def shuffle(x):
      for i in reversed(xrange(1, len(x))):
          j = int(random() * (i + 1))
          x[i], x[j] = x[j], x[i]

  def randint(a, b):
      return randrange(a, b + 1)

  def randrange(start, stop):
      istart = int(start)
      if istart != start: raise ValueError
      istop = int(stop)
      if istop != stop: raise ValueError
      width = istop - istart
      if width > 0:
          if width >= _maxwidth:
              return int(istart + _randbelow(width))
          return int(istart + int(random() * width))
      raise ValueError("empty range for randrange()")

  def sample(population, k):
      n = len(population)
      if not 0 <= k <= n:
          raise ValueError("sample larger than population")
      result = [None] * k
      pool = list(population)
      for i in xrange(k):
          j = int(random() * (n - i))
          result[i] = pool[j]
          pool[j] = pool[n - i - 1]
      return result
  \<close>
  In \<^verbatim>\<open>randint\<close> the sum \<^verbatim>\<open>b + 1\<close> is a float sum when \<^verbatim>\<open>b\<close> is a float, and
  is then rounded as a float is; the tests on \<^verbatim>\<open>istart\<close> and \<^verbatim>\<open>istop\<close> pass, since
  both bounds are whole numbers. For large populations \<^verbatim>\<open>sample\<close> tracks the chosen
  indices in a set instead of moving the pool; both ways return the elements at \<open>k\<close>
  pairwise different positions.
\<close>

type_synonym rng = "nat stream"

definition randbelow :: "nat \<Rightarrow> rng \<Rightarrow> nat \<times> rng" where
  "randbelow n g = (shd g mod n, stl g)"

fun shuffle_from :: "nat \<Rightarrow> 'a list \<Rightarrow> rng \<Rightarrow> 'a list \<times> rng" where
  "shuffle_from 0 x g = (x, g)"
| "shuffle_from (Suc i) x g =
     (case randbelow (Suc i + 1) g of
        (j, g1) \<Rightarrow> shuffle_from i (x[Suc i := x ! j, j := x ! Suc i]) g1)"

definition random_shuffle :: "'a list \<Rightarrow> rng \<Rightarrow> 'a list \<times> rng" where
  "random_shuffle x g = shuffle_from (length x - 1) x g"

definition random_randint :: "int \<Rightarrow> pynum \<Rightarrow> rng \<Rightarrow> (py_error + int) \<times> rng" where
  "random_randint a b g =
     (case (case b of PyIntNum i \<Rightarrow> Inr (i + 1) | PyFloatNum f \<Rightarrow> float_of_int (f + 1)) of
        Inl e \<Rightarrow> (Inl e, g)
      | Inr stop \<Rightarrow>
          (let width = stop - a in
           if width > 0 then
             (case randbelow (nat width) g of (r, g1) \<Rightarrow> (Inr (a + int r), g1))
           else (Inl ValueError, g)))"

text \<open>
  \<open>sample_from r m pool\<close> is the loop of \<^verbatim>\<open>sample\<close> with \<open>r\<close> rounds left and
  the first \<open>m\<close> cells of the pool still available (\<open>m\<close> is \<^verbatim>\<open>n - i\<close>).
\<close>

fun sample_from :: "nat \<Rightarrow> nat \<Rightarrow> 'a list \<Rightarrow> rng \<Rightarrow> 'a list \<times> rng" where
  "sample_from 0 m pool g = ([], g)"
| "sample_from (Suc r) m pool g =
     (case randbelow m g of
        (j, g1) \<Rightarrow>
          (case sample_from r (m - 1) (pool[j := pool ! (m - 1)]) g1 of
             (rest, g2) \<Rightarrow> (pool ! j # rest, g2)))"

definition random_sample :: "'a list \<Rightarrow> int \<Rightarrow> rng \<Rightarrow> (py_error + 'a list) \<times> rng" where
  "random_sample population k g =
     (let n = int (length population) in
      if \<not> (0 \<le> k \<and> k \<le> n) then (Inl ValueError, g)
      else (case sample_from (nat k) (length population) population g of
              (result, g1) \<Rightarrow> (Inr result, g1)))"

section \<open>The fault selector\<close>

subsection \<open>Replicated volumes\<close>

text \<open>
  The limit computed at the head of
  \<^verbatim>\<open>get_bricks_to_bring_offline_from_replicated_volume\<close> when quorum applies:
  \<^verbatim>\<open>
  if 'fixed' in quorum_type:
      if quorum_count is None:
          return list_of_bricks_to_bring_offline
      else:
          offline_bricks_limit = int(replica_count) - int(quorum_count)
  elif 'auto' in quorum_type:
      offline_bricks_limit = ceil(int(replica_count) / 2)
  elif quorum_type is None:
      offline_bricks_limit = int(replica_count) - 1
  else:
      return list_of_bricks_to_bring_offline
  \<close>
  \<open>Inl\<close> is a raised exception, \<open>Inr None\<close> one of the two early returns (the
  configuration is rejected and logged), \<open>Inr (Some l)\<close> the limit. In the second branch
  the division of two integers floors, and \<^verbatim>\<open>ceil\<close> turns the quotient, already
  whole, into a float: the limit is the float of \<open>replica_count div 2\<close>.
\<close>

definition offline_bricks_limit ::
  "pyval \<Rightarrow> pyval \<Rightarrow> pyval \<Rightarrow> py_error + pynum option" where
  "offline_bricks_limit replica_count quorum_type quorum_count =
     (case py_in ''fixed'' quorum_type of
        Inl e \<Rightarrow> Inl e
      | Inr True \<Rightarrow>
          if quorum_count = PyNone then Inr None
          else (case py_int replica_count of
                  Inl e \<Rightarrow> Inl e
                | Inr r \<Rightarrow> (case py_int quorum_count of
                              Inl e \<Rightarrow> Inl e
                            | Inr c \<Rightarrow> Inr (Some (PyIntNum (r - c)))))
      | Inr False \<Rightarrow>
          (case py_in ''auto'' quorum_type of
             Inl e \<Rightarrow> Inl e
           | Inr True \<Rightarrow>
               (case py_int replica_count of
                  Inl e \<Rightarrow> Inl e
                | Inr r \<Rightarrow> (case float_of_int (r div 2) of
                              Inl e \<Rightarrow> Inl e
                            | Inr f \<Rightarrow> Inr (Some (PyFloatNum f))))
           | Inr False \<Rightarrow>
               if quorum_type = PyNone then
                 (case py_int replica_count of
                    Inl e \<Rightarrow> Inl e
                  | Inr r \<Rightarrow> Inr (Some (PyIntNum (r - 1))))
               else Inr None))"

text \<open>
  The loop over the subvolumes. Each round shuffles the subvolume, draws the number of
  bricks to take and samples that many; the first exception ends the run.
  \<^verbatim>\<open>
  for subvol in subvols_list:
      random.shuffle(subvol)
      random_count = random.randint(1, offline_bricks_limit)
      bricks_to_bring_offline = random.sample(subvol, random_count)
      list_of_bricks_to_bring_offline.extend(bricks_to_bring_offline)
  \<close>
\<close>

fun select_from_subvols ::
  "pynum \<Rightarrow> brick list list \<Rightarrow> brick list \<Rightarrow> rng \<Rightarrow> (py_error + brick list) \<times> rng" where
  "select_from_subvols limit [] acc g = (Inr acc, g)"
| "select_from_subvols limit (subvol # rest) acc g =
     (case random_shuffle subvol g of
        (shuffled, g1) \<Rightarrow>
          (case random_randint 1 limit g1 of
             (Inl e, g2) \<Rightarrow> (Inl e, g2)
           | (Inr random_count, g2) \<Rightarrow>
               (case random_sample shuffled random_count g2 of
                  (Inl e, g3) \<Rightarrow> (Inl e, g3)
                | (Inr bricks_to_bring_offline, g3) \<Rightarrow>
                    select_from_subvols limit rest (acc @ bricks_to_bring_offline) g3)))"

text \<open>
  A missing key of \<^verbatim>\<open>quorum_info\<close> is the caught \<^verbatim>\<open>KeyError\<close>: the function
  logs it and returns the empty list.
\<close>

definition get_bricks_to_bring_offline_from_replicated_volume ::
  "brick list list \<Rightarrow> pyval \<Rightarrow> pyval dict \<Rightarrow> rng \<Rightarrow> (py_error + brick list) \<times> rng" where
  "get_bricks_to_bring_offline_from_replicated_volume subvols_list replica_count quorum_info g =
     (case (map_of quorum_info ''is_quorum_applicable'',
            map_of quorum_info ''quorum_type'',
            map_of quorum_info ''quorum_count'') of
        (Some is_quorum_applicable, Some quorum_type, Some quorum_count) \<Rightarrow>
          if py_truthy is_quorum_applicable then
            (case offline_bricks_limit replica_count quorum_type quorum_count of
               Inl e \<Rightarrow> (Inl e, g)
             | Inr None \<Rightarrow> (Inr [], g)
             | Inr (Some limit) \<Rightarrow> select_from_subvols limit subvols_list [] g)
          else (Inr [], g)
      | _ \<Rightarrow> (Inr [], g))"

subsection \<open>Dispersed volumes\<close>

text \<open>
  \<^verbatim>\<open>get_bricks_to_bring_offline_from_disperse_volume\<close> runs the same loop with the
  redundancy count as the limit; \<^verbatim>\<open>int(redundancy_count)\<close> is evaluated in every
  round, after the shuffle.
\<close>

fun disperse_select_from_subvols ::
  "pyval \<Rightarrow> brick list list \<Rightarrow> brick list \<Rightarrow> rng \<Rightarrow> (py_error + brick list) \<times> rng" where
  "disperse_select_from_subvols redundancy_count [] acc g = (Inr acc, g)"
| "disperse_select_from_subvols redundancy_count (subvol # rest) acc g =
     (case random_shuffle subvol g of
        (shuffled, g1) \<Rightarrow>
          (case py_int redundancy_count of
             Inl e \<Rightarrow> (Inl e, g1)
           | Inr limit \<Rightarrow>
               (case random_randint 1 (PyIntNum limit) g1 of
                  (Inl e, g2) \<Rightarrow> (Inl e, g2)
                | (Inr random_count, g2) \<Rightarrow>
                    (case random_sample shuffled random_count g2 of
                       (Inl e, g3) \<Rightarrow> (Inl e, g3)
                     | (Inr bricks_to_bring_offline, g3) \<Rightarrow>
                         disperse_select_from_subvols redundancy_count rest
                           (acc @ bricks_to_bring_offline) g3))))"

definition get_bricks_to_bring_offline_from_disperse_volume ::
  "brick list list \<Rightarrow> pyval \<Rightarrow> rng \<Rightarrow> (py_error + brick list) \<times> rng" where
  "get_bricks_to_bring_offline_from_disperse_volume subvols_list redundancy_count g =
     disperse_select_from_subvols redundancy_count subvols_list [] g"

subsection \<open>Selection for a volume\<close>

text \<open>
  The selectors query the cluster through \<^verbatim>\<open>get_volume_info\<close>,
  \<^verbatim>\<open>is_tiered_volume\<close>, \<^verbatim>\<open>get_volume_type_info\<close>, \<^verbatim>\<open>get_subvols\<close> and
  \<^verbatim>\<open>get_client_quorum_info\<close> of \<^verbatim>\<open>volume_ops\<close> and \<^verbatim>\<open>volume_libs\<close>. A
  \<open>cluster\<close> holds what these return for the node and volume at hand (one state for the
  whole call); of the volume info only its presence is used.
\<close>

record cluster =
  get_volume_info :: "pyval dict option"
  is_tiered_volume :: bool
  get_volume_type_info :: "pyval dict dict"
  get_subvols :: "brick list list dict"
  get_client_quorum_info :: "pyval dict dict"

definition select_volume_bricks_to_bring_offline ::
  "cluster \<Rightarrow> rng \<Rightarrow> (py_error + brick list) \<times> rng" where
  "select_volume_bricks_to_bring_offline c g =
     (if is_tiered_volume c then (Inr [], g)
      else
        (case subscript (get_volume_type_info c) ''volume_type_info'' of
           Inl e \<Rightarrow> (Inl e, g)
         | Inr info \<Rightarrow>
        (case subscript info ''typeStr'' of
           Inl e \<Rightarrow> (Inl e, g)
         | Inr volume_type \<Rightarrow>
        (case subscript (get_subvols c) ''volume_subvols'' of
           Inl e \<Rightarrow> (Inl e, g)
         | Inr volume_subvols \<Rightarrow>
             if volume_type = PyStr ''Distribute'' then (Inr [], g)
             else if volume_type = PyStr ''Replicate'' \<or>
                     volume_type = PyStr ''Distributed-Replicate'' then
               (case subscript info ''replicaCount'' of
                  Inl e \<Rightarrow> (Inl e, g)
                | Inr volume_replica_count \<Rightarrow>
               (case subscript (get_client_quorum_info c) ''volume_quorum_info'' of
                  Inl e \<Rightarrow> (Inl e, g)
                | Inr volume_quorum_info \<Rightarrow>
                    get_bricks_to_bring_offline_from_replicated_volume
                      volume_subvols volume_replica_count volume_quorum_info g))
             else if volume_type = PyStr ''Disperse'' \<or>
                     volume_type = PyStr ''Distributed-Disperse'' then
               (case subscript info ''redundancyCount'' of
                  Inl e \<Rightarrow> (Inl e, g)
                | Inr volume_redundancy_count \<Rightarrow>
                    get_bricks_to_bring_offline_from_disperse_volume
                      volume_subvols volume_redundancy_count g)
             else (Inr [], g)))))"

text \<open>
  In the hot tier the replicated case is a second \<^verbatim>\<open>if\<close>, not an \<^verbatim>\<open>elif\<close>,
  and there is no dispersed case.
\<close>

definition select_hot_tier_bricks_to_bring_offline ::
  "cluster \<Rightarrow> rng \<Rightarrow> (py_error + brick list) \<times> rng" where
  "select_hot_tier_bricks_to_bring_offline c g =
     (if \<not> is_tiered_volume c then (Inr [], g)
      else
        (case subscript (get_volume_type_info c) ''hot_tier_type_info'' of
           Inl e \<Rightarrow> (Inl e, g)
         | Inr info \<Rightarrow>
        (case subscript info ''hotBrickType'' of
           Inl e \<Rightarrow> (Inl e, g)
         | Inr hot_tier_type \<Rightarrow>
        (case subscript (get_subvols c) ''hot_tier_subvols'' of
           Inl e \<Rightarrow> (Inl e, g)
         | Inr hot_tier_subvols \<Rightarrow>
             if hot_tier_type = PyStr ''Replicate'' \<or>
                hot_tier_type = PyStr ''Distributed-Replicate'' then
               (case subscript info ''hotreplicaCount'' of
                  Inl e \<Rightarrow> (Inl e, g)
                | Inr hot_tier_replica_count \<Rightarrow>
               (case subscript (get_client_quorum_info c) ''hot_tier_quorum_info'' of
                  Inl e \<Rightarrow> (Inl e, g)
                | Inr hot_tier_quorum_info \<Rightarrow>
                    get_bricks_to_bring_offline_from_replicated_volume
                      hot_tier_subvols hot_tier_replica_count hot_tier_quorum_info g))
             else (Inr [], g)))))"

definition select_cold_tier_bricks_to_bring_offline ::
  "cluster \<Rightarrow> rng \<Rightarrow> (py_error + brick list) \<times> rng" where
  "select_cold_tier_bricks_to_bring_offline c g =
     (if \<not> is_tiered_volume c then (Inr [], g)
      else
        (case subscript (get_volume_type_info c) ''cold_tier_type_info'' of
           Inl e \<Rightarrow> (Inl e, g)
         | Inr info \<Rightarrow>
        (case subscript info ''coldBrickType'' of
           Inl e \<Rightarrow> (Inl e, g)
         | Inr cold_tier_type \<Rightarrow>
        (case subscript (get_subvols c) ''cold_tier_subvols'' of
           Inl e \<Rightarrow> (Inl e, g)
         | Inr cold_tier_subvols \<Rightarrow>
             if cold_tier_type = PyStr ''Distribute'' then (Inr [], g)
             else if cold_tier_type = PyStr ''Replicate'' \<or>
                     cold_tier_type = PyStr ''Distributed-Replicate'' then
               (case subscript info ''coldreplicaCount'' of
                  Inl e \<Rightarrow> (Inl e, g)
                | Inr cold_tier_replica_count \<Rightarrow>
               (case subscript (get_client_quorum_info c) ''cold_tier_quorum_info'' of
                  Inl e \<Rightarrow> (Inl e, g)
                | Inr cold_tier_quorum_info \<Rightarrow>
                    get_bricks_to_bring_offline_from_replicated_volume
                      cold_tier_subvols cold_tier_replica_count cold_tier_quorum_info g))
             else if cold_tier_type = PyStr ''Disperse'' \<or>
                     cold_tier_type = PyStr ''Distributed-Disperse'' then
               (case subscript info ''coldredundancyCount'' of
                  Inl e \<Rightarrow> (Inl e, g)
                | Inr cold_tier_redundancy_count \<Rightarrow>
                    get_bricks_to_bring_offline_from_disperse_volume
                      cold_tier_subvols cold_tier_redundancy_count g)
             else (Inr [], g)))))"

definition select_tier_volume_bricks_to_bring_offline ::
  "cluster \<Rightarrow> rng \<Rightarrow> (py_error + pyval dict) \<times> rng" where
  "select_tier_volume_bricks_to_bring_offline c g =
     (let bricks_to_bring_offline =
            [(''hot_tier_bricks'', PyList []), (''cold_tier_bricks'', PyList [])]
      in if get_volume_info c = None then (Inr bricks_to_bring_offline, g)
         else if is_tiered_volume c then
           (case select_hot_tier_bricks_to_bring_offline c g of
              (Inl e, g1) \<Rightarrow> (Inl e, g1)
            | (Inr hot_tier_bricks, g1) \<Rightarrow>
                (case select_cold_tier_bricks_to_bring_offline c g1 of
                   (Inl e, g2) \<Rightarrow> (Inl e, g2)
                 | (Inr cold_tier_bricks, g2) \<Rightarrow>
                     (Inr (AList.update ''cold_tier_bricks'' (PyList cold_tier_bricks)
                            (AList.update ''hot_tier_bricks'' (PyList hot_tier_bricks)
                               bricks_to_bring_offline)), g2)))
         else (Inr bricks_to_bring_offline, g))"

text \<open>
  For a tiered volume the default dictionary, with \<^verbatim>\<open>is_tier\<close> just set, is
  rebound to the dictionary of the tier selector.
\<close>

definition select_bricks_to_bring_offline ::
  "cluster \<Rightarrow> rng \<Rightarrow> (py_error + pyval dict) \<times> rng" where
  "select_bricks_to_bring_offline c g =
     (let bricks_to_bring_offline =
            [(''is_tier'', PyBool False), (''hot_tier_bricks'', PyList []),
             (''cold_tier_bricks'', PyList []), (''volume_bricks'', PyList [])]
      in if get_volume_info c = None then (Inr bricks_to_bring_offline, g)
         else if is_tiered_volume c then
           (let bricks_to_bring_offline =
                  AList.update ''is_tier'' (PyBool True) bricks_to_bring_offline
            in select_tier_volume_bricks_to_bring_offline c g)
         else
           (case select_volume_bricks_to_bring_offline c g of
              (Inl e, g1) \<Rightarrow> (Inl e, g1)
            | (Inr volume_bricks, g1) \<Rightarrow>
                (Inr (AList.update ''volume_bricks'' (PyList volume_bricks)
                        bricks_to_bring_offline), g1)))"

section \<open>The status poller\<close>

text \<open>
  A status snapshot, as \<^verbatim>\<open>get_volume_status\<close> returns it, maps the volume name to
  the nodes, a node to its brick paths and a path to the fields of the brick, of which
  \<^verbatim>\<open>status\<close> is read. \<^verbatim>\<open>None\<close> is the failed query.
\<close>

type_synonym volume_status = "pyval dict dict dict dict"

text \<open>\<^verbatim>\<open>brick.split(":")\<close>: the pieces between the colons.\<close>

fun split_on :: "char \<Rightarrow> string \<Rightarrow> string list" where
  "split_on sep [] = [[]]"
| "split_on sep (x # xs) =
     (if x = sep then [] # split_on sep xs
      else (case split_on sep xs of
              [] \<Rightarrow> [[x]]
            | p # ps \<Rightarrow> (x # p) # ps))"

text \<open>
  The loop of \<^verbatim>\<open>are_bricks_online\<close>; it carries \<^verbatim>\<open>_rc\<close> and the list of bricks
  found offline, and visits every brick even after the first one found offline.
  \<^verbatim>\<open>
  for brick in bricks_list:
      brick_node, brick_path = brick.split(":")
      status = int(volume_status[volname][brick_node][brick_path]['status'])
      if status != 1:
          offline_bricks_list.append(brick)
          _rc = False
  \<close>
  Unpacking anything but two pieces raises \<^verbatim>\<open>ValueError\<close>.
\<close>

fun online_loop ::
  "volume_status \<Rightarrow> string \<Rightarrow> brick list \<Rightarrow> bool \<Rightarrow> brick list \<Rightarrow>
   py_error + bool \<times> brick list" where
  "online_loop volume_status volname [] rc offline_bricks_list = Inr (rc, offline_bricks_list)"
| "online_loop volume_status volname (brick # rest) rc offline_bricks_list =
     (case split_on CHR '':'' brick of
        [brick_node, brick_path] \<Rightarrow>
          (case subscript volume_status volname of
             Inl e \<Rightarrow> Inl e
           | Inr nodes \<Rightarrow>
          (case subscript nodes brick_node of
             Inl e \<Rightarrow> Inl e
           | Inr paths \<Rightarrow>
          (case subscript paths brick_path of
             Inl e \<Rightarrow> Inl e
           | Inr brick_info \<Rightarrow>
          (case subscript brick_info ''status'' of
             Inl e \<Rightarrow> Inl e
           | Inr v \<Rightarrow>
          (case py_int v of
             Inl e \<Rightarrow> Inl e
           | Inr status \<Rightarrow>
               if status \<noteq> 1 then
                 online_loop volume_status volname rest False (offline_bricks_list @ [brick])
               else online_loop volume_status volname rest rc offline_bricks_list)))))
      | _ \<Rightarrow> Inl ValueError)"

text \<open>
  \<^verbatim>\<open>are_bricks_online\<close> returns \<^verbatim>\<open>None\<close> (here \<open>Inr None\<close>) when the snapshot
  is \<^verbatim>\<open>None\<close> or empty, and otherwise whether every brick has status 1.
\<close>

definition are_bricks_online ::
  "volume_status option \<Rightarrow> string \<Rightarrow> brick list \<Rightarrow> py_error + bool option" where
  "are_bricks_online volume_status volname bricks_list =
     (case volume_status of
        None \<Rightarrow> Inr None
      | Some vs \<Rightarrow>
          if vs = [] then Inr None
          else (case online_loop vs volname bricks_list True [] of
                  Inl e \<Rightarrow> Inl e
                | Inr (rc, offline_bricks_list) \<Rightarrow> Inr (Some rc)))"

text \<open>
  The loop of \<^verbatim>\<open>wait_for_bricks_to_be_online\<close>. The cluster changes between polls,
  so the status source is a sequence: \<open>get_volume_status n\<close> is the answer to the query
  number \<open>n\<close>, counted from 0. The loop returns the flag together with the number of
  queries issued so far and the seconds slept (the value of \<^verbatim>\<open>counter\<close>).
  \<^verbatim>\<open>
  while counter < timeout:
      status = are_bricks_online(mnode, volname, all_bricks)
      if status:
          flag = 1
          break
      if not status:
          time.sleep(10)
          counter = counter + 10
  \<close>
\<close>

function wait_loop ::
  "(nat \<Rightarrow> volume_status option) \<Rightarrow> string \<Rightarrow> brick list \<Rightarrow> int \<Rightarrow> int \<Rightarrow> nat \<Rightarrow>
   (py_error + bool) \<times> nat \<times> int" where
  "wait_loop get_volume_status volname all_bricks timeout counter n =
     (if counter < timeout then
        (case are_bricks_online (get_volume_status n) volname all_bricks of
           Inl e \<Rightarrow> (Inl e, Suc n, counter)
         | Inr status \<Rightarrow>
             if status = Some True then (Inr True, Suc n, counter)
             else wait_loop get_volume_status volname all_bricks timeout (counter + 10) (Suc n))
      else (Inr False, n, counter))"
  by pat_completeness auto
termination
  by (relation "measure (\<lambda>(s, v, b, timeout, counter, n). nat (timeout - counter))") auto

declare wait_loop.simps [simp del]

text \<open>
  \<^verbatim>\<open>wait_for_bricks_to_be_online\<close>; \<open>get_all_bricks\<close> is what the function of that
  name returns for the volume (\<^verbatim>\<open>None\<close> on failure). The result is the returned
  boolean, the number of status queries and the seconds slept.
\<close>

definition wait_for_bricks_to_be_online ::
  "brick list option \<Rightarrow> (nat \<Rightarrow> volume_status option) \<Rightarrow> string \<Rightarrow> int \<Rightarrow>
   (py_error + bool) \<times> nat \<times> int" where
  "wait_for_bricks_to_be_online get_all_bricks get_volume_status volname timeout =
     (case get_all_bricks of
        None \<Rightarrow> (Inr False, 0, 0)
      | Some all_bricks \<Rightarrow>
          if all_bricks = [] then (Inr False, 0, 0)
          else wait_loop get_volume_status volname all_bricks timeout 0 0)"

text \<open>
  What one round of the selection loop may return for a subvolume \<open>s\<close> under the limit
  \<open>L\<close>: between 1 and \<open>L\<close> bricks of \<open>s\<close>, none of them twice.
\<close>

definition pick_ok :: "int \<Rightarrow> brick list \<Rightarrow> brick list \<Rightarrow> bool" where
  "pick_ok L p s = (distinct p \<and> set p \<subseteq> set s \<and> 1 \<le> length p \<and> int (length p) \<le> L)"

section \<open>Example clusters\<close>

text \<open>
  A plain distributed volume of two bricks, and a tiered volume whose hot and cold tier
  are both plain distributed.
\<close>

definition distribute_volume :: cluster where
  "distribute_volume =
     \<lparr>get_volume_info = Some [(''typeStr'', PyStr ''Distribute'')],
      is_tiered_volume = False,
      get_volume_type_info =
        [(''volume_type_info'', [(''typeStr'', PyStr ''Distribute'')])],
      get_subvols = [(''volume_subvols'', [[''n1:/b1''], [''n2:/b1'']])],
      get_client_quorum_info =
        [(''volume_quorum_info'',
          [(''is_quorum_applicable'', PyBool False), (''quorum_type'', PyNone),
           (''quorum_count'', PyNone)])]\<rparr>"

definition distribute_tiers :: cluster where
  "distribute_tiers =
     \<lparr>get_volume_info = Some [(''typeStr'', PyStr ''Tier'')],
      is_tiered_volume = True,
      get_volume_type_info =
        [(''hot_tier_type_info'', [(''hotBrickType'', PyStr ''Distribute'')]),
         (''cold_tier_type_info'', [(''coldBrickType'', PyStr ''Distribute'')])],
      get_subvols =
        [(''hot_tier_subvols'', [[''n1:/hot1''], [''n2:/hot1'']]),
         (''cold_tier_subvols'', [[''n1:/cold1''], [''n2:/cold1'']])],
      get_client_quorum_info =
        [(''hot_tier_quorum_info'',
          [(''is_quorum_applicable'', PyBool False), (''quorum_type'', PyNone),
           (''quorum_count'', PyNone)]),
         (''cold_tier_quorum_info'',
          [(''is_quorum_applicable'', PyBool False), (''quorum_type'', PyNone),
           (''quorum_count'', PyNone)])]\<rparr>"

text \<open>
  A volume of one replica set of two bricks whose fixed quorum is two.
\<close>

definition replica_two_fixed_two :: cluster where
  "replica_two_fixed_two =
     \<lparr>get_volume_info = Some [(''typeStr'', PyStr ''Replicate'')],
      is_tiered_volume = False,
      get_volume_type_info =
        [(''volume_type_info'',
          [(''typeStr'', PyStr ''Replicate''), (''replicaCount'', PyStr ''2'')])],
      get_subvols = [(''volume_subvols'', [[''n1:/b1'', ''n2:/b1'']])],
      get_client_quorum_info =
        [(''volume_quorum_info'',
          [(''is_quorum_applicable'', PyBool True), (''quorum_type'', PyStr ''fixed''),
           (''quorum_count'', PyStr ''2'')])]\<rparr>"

text \<open>
  Status sources for a volume \<^verbatim>\<open>testvol\<close> with the one brick \<^verbatim>\<open>n1:/b1\<close>: the query
  fails every time, the brick is online every time, the brick is offline every time.
\<close>

definition never_available :: "nat \<Rightarrow> volume_status option" where
  "never_available n = None"

definition one_brick_status :: "pyval \<Rightarrow> volume_status" where
  "one_brick_status st = [(''testvol'', [(''n1'', [(''/b1'', [(''status'', st)])])])]"


definition always_offline :: "nat \<Rightarrow> volume_status option" where
  "always_offline n = Some (one_brick_status (PyStr ''0''))"

text \<open>
  A replicated volume and a tiered volume with replicated tiers whose quorum does not
  apply, and a dispersed volume of one subvolume of three bricks with redundancy 1, its
  quorum info saying the same.
\<close>

definition replicate_no_quorum :: cluster where
  "replicate_no_quorum =
     \<lparr>get_volume_info = Some [(''typeStr'', PyStr ''Replicate'')],
      is_tiered_volume = False,
      get_volume_type_info =
        [(''volume_type_info'',
          [(''typeStr'', PyStr ''Replicate''), (''replicaCount'', PyStr ''2'')])],
      get_subvols = [(''volume_subvols'', [[''n1:/b1'', ''n2:/b1'']])],
      get_client_quorum_info =
        [(''volume_quorum_info'',
          [(''is_quorum_applicable'', PyBool False), (''quorum_type'', PyNone),
           (''quorum_count'', PyNone)])]\<rparr>"

definition replicate_tiers_no_quorum :: cluster where
  "replicate_tiers_no_quorum =
     \<lparr>get_volume_info = Some [(''typeStr'', PyStr ''Tier'')],
      is_tiered_volume = True,
      get_volume_type_info =
        [(''hot_tier_type_info'',
          [(''hotBrickType'', PyStr ''Replicate''), (''hotreplicaCount'', PyStr ''2'')]),
         (''cold_tier_type_info'',
          [(''coldBrickType'', PyStr ''Distributed-Replicate''),
           (''coldreplicaCount'', PyStr ''2'')])],
      get_subvols =
        [(''hot_tier_subvols'', [[''n1:/hot1'', ''n2:/hot1'']]),
         (''cold_tier_subvols'',
          [[''n1:/cold1'', ''n2:/cold1''], [''n1:/cold2'', ''n2:/cold2'']])],
      get_client_quorum_info =
        [(''hot_tier_quorum_info'',
          [(''is_quorum_applicable'', PyBool False), (''quorum_type'', PyNone),
           (''quorum_count'', PyNone)]),
         (''cold_tier_quorum_info'',
          [(''is_quorum_applicable'', PyBool False), (''quorum_type'', PyNone),
           (''quorum_count'', PyNone)])]\<rparr>"

definition disperse_no_quorum :: cluster where
  "disperse_no_quorum =
     \<lparr>get_volume_info = Some [(''typeStr'', PyStr ''Disperse'')],
      is_tiered_volume = False,
      get_volume_type_info =
        [(''volume_type_info'',
          [(''typeStr'', PyStr ''Disperse''), (''redundancyCount'', PyStr ''1'')])],
      get_subvols = [(''volume_subvols'', [[''n1:/b1'', ''n2:/b1'', ''n3:/b1'']])],
      get_client_quorum_info =
        [(''volume_quorum_info'',
          [(''is_quorum_applicable'', PyBool False), (''quorum_type'', PyNone),
           (''quorum_count'', PyNone)])]\<rparr>"

text \<open>
  Further status sources for \<^verbatim>\<open>testvol\<close>: the brick is offline at the first query and
  online from the second on; the first query fails and the brick is online from the second
  on; the brick is offline at the first query and its node is missing from the snapshot
  from the second on.
\<close>

definition online_after_one :: "nat \<Rightarrow> volume_status option" where
  "online_after_one n =
     (if n = 0 then Some (one_brick_status (PyStr ''0''))
      else Some (one_brick_status (PyStr ''1'')))"

definition failing_then_online :: "nat \<Rightarrow> volume_status option" where
  "failing_then_online n = (if n = 0 then None else Some (one_brick_status (PyStr ''1'')))"


section \<open>Properties of the random source\<close>

lemma mset_shuffle_from: "i < length x \<Longrightarrow> mset (fst (shuffle_from i x g)) = mset x"
proof (induction i arbitrary: x g)
  case 0
  then show ?case by simp
next
  case (Suc i)
  define j where "j = shd g mod (Suc i + 1)"
  have "j < Suc (Suc i)" unfolding j_def by simp
  with Suc.prems have j: "j < length x" by simp
  let ?x' = "x[Suc i := x ! j, j := x ! Suc i]"
  have "mset ?x' = mset x" using j Suc.prems by (simp add: mset_swap)
  moreover have "i < length ?x'" using Suc.prems by simp
  ultimately show ?case
    using Suc.IH[of ?x' "stl g"] by (simp add: randbelow_def j_def)
qed

lemma mset_random_shuffle: "mset (fst (random_shuffle x g)) = mset x"
  by (cases x) (auto simp: random_shuffle_def mset_shuffle_from)

lemma take_pool_step:
  assumes "distinct (take (Suc m) pool)" "Suc m \<le> length pool" "j < Suc m"
  shows "distinct (take m (pool[j := pool ! m])) \<and>
         set (take m (pool[j := pool ! m])) = set (take (Suc m) pool) - {pool ! j}"
proof (cases "j = m")
  case True
  with assms show ?thesis
    by (auto simp: take_Suc_conv_app_nth)
next
  case False
  with assms have jm: "j < m" by simp
  have t: "take (Suc m) pool = take m pool @ [pool ! m]"
    using assms by (simp add: take_Suc_conv_app_nth)
  have u: "take m (pool[j := pool ! m]) = (take m pool)[j := pool ! m]"
    using jm by (simp add: take_update_swap)
  have d: "distinct (take m pool)" "pool ! m \<notin> set (take m pool)"
    using assms(1) t by auto
  have nj: "take m pool ! j = pool ! j" using jm by simp
  have lj: "j < length (take m pool)" using jm assms(2) by simp
  have mem: "pool ! j \<in> set (take m pool)" using nth_mem[OF lj] nj by simp
  have ne: "pool ! m \<noteq> pool ! j" using mem d(2) by auto
  have "distinct ((take m pool)[j := pool ! m])"
    using d by (simp add: distinct_list_update)
  moreover have "set ((take m pool)[j := pool ! m]) = insert (pool ! m) (set (take m pool) - {pool ! j})"
    using set_update_distinct[OF d(1) lj] nj by simp
  ultimately show ?thesis
    unfolding u t using ne d(2) by auto
qed

lemma sample_from_props:
  "r \<le> m \<Longrightarrow> m \<le> length pool \<Longrightarrow> distinct (take m pool) \<Longrightarrow>
   distinct (fst (sample_from r m pool g)) \<and> set (fst (sample_from r m pool g)) \<subseteq> set (take m pool)
   \<and> length (fst (sample_from r m pool g)) = r"
proof (induction r arbitrary: m pool g)
  case 0
  then show ?case by simp
next
  case (Suc r)
  then obtain m' where m: "m = Suc m'" by (cases m) auto
  define j where "j = shd g mod Suc m'"
  have j: "j < Suc m'" unfolding j_def by simp
  let ?pool' = "pool[j := pool ! m']"
  from take_pool_step[of m' pool j] Suc.prems j m
  have st: "distinct (take m' ?pool')" "set (take m' ?pool') = set (take (Suc m') pool) - {pool ! j}"
    by auto
  have IH: "distinct (fst (sample_from r m' ?pool' (stl g))) \<and>
        set (fst (sample_from r m' ?pool' (stl g))) \<subseteq> set (take m' ?pool') \<and>
        length (fst (sample_from r m' ?pool' (stl g))) = r"
    using Suc.IH[of m' ?pool' "stl g"] Suc.prems m st by simp
  have lj: "j < length (take (Suc m') pool)" using j Suc.prems m by simp
  have pj: "pool ! j \<in> set (take (Suc m') pool)"
    using nth_mem[OF lj] j by simp
  have eq: "fst (sample_from (Suc r) (Suc m') pool g) = pool ! j # fst (sample_from r m' ?pool' (stl g))"
    by (simp add: randbelow_def j_def split: prod.splits)
  show ?case
    unfolding m eq using IH st pj by auto
qed

lemma random_shuffle_perm:
  "random_shuffle x g = (y, g1) \<Longrightarrow> mset y = mset x"
  using mset_random_shuffle[of x g] by simp

lemma float_of_int_exact: "\<bar>x\<bar> \<le> 2 ^ 53 \<Longrightarrow> float_of_int x = Inr x"
  by (simp add: float_of_int_def)

lemma random_randint_range:
  assumes "1 \<le> L" and "n = PyIntNum L \<or> (n = PyFloatNum L \<and> L < 2 ^ 53)"
  shows "\<exists>c g1. random_randint 1 n g = (Inr c, g1) \<and> 1 \<le> c \<and> c \<le> L"
proof -
  have "int (shd g mod nat L) < L" using assms(1)
    by (metis mod_less_divisor nat_eq_iff2 of_nat_less_iff zero_less_nat_eq zless_nat_conj not_less zero_less_one less_le_trans)
  moreover have "(case n of PyIntNum i \<Rightarrow> Inr (i + 1) | PyFloatNum f \<Rightarrow> float_of_int (f + 1))
      = Inr (L + 1)"
    using assms by (auto simp: float_of_int_exact)
  ultimately show ?thesis using assms(1)
    by (simp add: random_randint_def randbelow_def)
qed

lemma random_sample_props:
  assumes "0 \<le> k" "k \<le> int (length population)" "distinct population"
  shows "\<exists>r g1. random_sample population k g = (Inr r, g1) \<and> distinct r \<and>
           set r \<subseteq> set population \<and> int (length r) = k"
proof -
  obtain r g1 where s: "sample_from (nat k) (length population) population g = (r, g1)"
    by (cases "sample_from (nat k) (length population) population g")
  have "nat k \<le> length population" using assms by simp
  from sample_from_props[OF this, of population g] assms s
  have "distinct r \<and> set r \<subseteq> set population \<and> length r = nat k" by simp
  then show ?thesis using assms s by (simp add: random_sample_def)
qed

section \<open>Properties of the fault selector\<close>

lemma select_from_subvols_picks:
  assumes "1 \<le> L" "\<forall>s \<in> set subvols. distinct s \<and> L \<le> int (length s)"
    and "n = PyIntNum L \<or> (n = PyFloatNum L \<and> L < 2 ^ 53)"
  shows "\<exists>picks g1. select_from_subvols n subvols acc g = (Inr (acc @ concat picks), g1) \<and>
            list_all2 (pick_ok L) picks subvols"
  using assms(2)
proof (induction subvols arbitrary: acc g)
  case Nil
  then show ?case by simp
next
  case (Cons s rest)
  obtain sh g1 where sh: "random_shuffle s g = (sh, g1)" by (cases "random_shuffle s g")
  have msh: "mset sh = mset s" using random_shuffle_perm[OF sh] .
  have dsh: "distinct sh" "set sh = set s" "length sh = length s"
    using msh Cons.prems mset_eq_imp_distinct_iff[OF msh] mset_eq_setD[OF msh] mset_eq_length[OF msh]
    by simp_all
  obtain c g2 where c: "random_randint 1 n g1 = (Inr c, g2)" "1 \<le> c" "c \<le> L"
    using random_randint_range[OF assms(1) assms(3), of g1] by blast
  have "c \<le> int (length sh)" using c Cons.prems dsh by simp
  with c dsh obtain p g3 where p: "random_sample sh c g2 = (Inr p, g3)" "distinct p"
     "set p \<subseteq> set sh" "int (length p) = c"
    using random_sample_props[of c sh g2] by force
  obtain picks g4 where r: "select_from_subvols n rest (acc @ p) g3 = (Inr ((acc @ p) @ concat picks), g4)"
      "list_all2 (pick_ok L) picks rest"
    using Cons.IH[of "acc @ p" g3] Cons.prems by auto
  have "pick_ok L p s" using p c dsh by (simp add: pick_ok_def)
  then have "list_all2 (pick_ok L) (p # picks) (s # rest)" using r by simp
  moreover have "select_from_subvols n (s # rest) acc g = (Inr (acc @ concat (p # picks)), g4)"
    using sh c p r by simp
  ultimately show ?case by blast
qed

lemma picks_subset: "list_all2 (pick_ok L) picks subvols \<Longrightarrow> set (concat picks) \<subseteq> set (concat subvols)"
  by (induction rule: list_all2_induct) (auto simp: pick_ok_def)

lemma picks_disjoint:
  "list_all2 (pick_ok L) picks subvols \<Longrightarrow> distinct (concat subvols) \<Longrightarrow>
     distinct (concat picks) \<and>
     (\<forall>s \<in> set subvols. \<exists>p. pick_ok L p s \<and> set (concat picks) \<inter> set s = set p)"
proof (induction rule: list_all2_induct)
  case Nil
  then show ?case by simp
next
  case (Cons p ps s ss)
  have sub: "set (concat ps) \<subseteq> set (concat ss)" using picks_subset[OF Cons.hyps(2)] .
  have ps: "set p \<subseteq> set s" "distinct p" using Cons.hyps(1) by (auto simp: pick_ok_def)
  have dj: "set s \<inter> set (concat ss) = {}" "distinct (concat ss)" using Cons.prems by auto
  have IH: "distinct (concat ps)" "\<forall>t \<in> set ss. \<exists>q. pick_ok L q t \<and> set (concat ps) \<inter> set t = set q"
    using Cons.IH dj by auto
  have 1: "distinct (concat (p # ps))" using ps IH(1) sub dj by auto
  have 2: "set (concat (p # ps)) \<inter> set s = set p" using ps sub dj by auto
  have 3: "\<exists>q. pick_ok L q t \<and> set (concat (p # ps)) \<inter> set t = set q" if t: "t \<in> set ss" for t
  proof -
    from IH(2) t obtain q where q: "pick_ok L q t" "set (concat ps) \<inter> set t = set q" by blast
    have "set t \<subseteq> set (concat ss)" using t by auto
    then have "set p \<inter> set t = {}" using ps dj by auto
    then have "set (concat (p # ps)) \<inter> set t = set q" using q by auto
    with q show ?thesis by blast
  qed
  show ?case using 1 2 3 Cons.hyps(1) by auto
qed

lemma picks_card:
  assumes "list_all2 (pick_ok L) picks subvols" "distinct (concat subvols)" "s \<in> set subvols"
  shows "1 \<le> card (set (concat picks) \<inter> set s) \<and> int (card (set (concat picks) \<inter> set s)) \<le> L"
proof -
  from picks_disjoint[OF assms(1,2)] assms(3)
  obtain p where p: "pick_ok L p s" "set (concat picks) \<inter> set s = set p" by blast
  then have "card (set (concat picks) \<inter> set s) = length p"
    by (simp add: pick_ok_def distinct_card)
  with p(1) show ?thesis by (simp add: pick_ok_def)
qed

text \<open>
  Claim C1. For a replicated topology whose computed offline limit is \<open>L \<ge> 1\<close>, the
  function returns a selection that holds, for each subvolume, at least one and at most
  \<open>L\<close> of its bricks, and no brick twice. The topology is a list of subvolumes with
  pairwise different bricks, each subvolume with at least \<open>L\<close> of them (a replica set
  has \<open>replica_count\<close> bricks, and the limit never exceeds that for a quorum count that
  is not negative). The limit is an integer, or a float that holds a whole number below
  \<open>2\<^sup>5\<^sup>3\<close>; beyond that the float sum \<^verbatim>\<open>b + 1\<close> of \<^verbatim>\<open>randint\<close> is no longer
  exact.
\<close>

theorem replicated_selection_within_limit:
  assumes "map_of quorum_info ''is_quorum_applicable'' = Some a" and "py_truthy a"
    and "map_of quorum_info ''quorum_type'' = Some qt"
    and "map_of quorum_info ''quorum_count'' = Some qc"
    and "offline_bricks_limit replica_count qt qc = Inr (Some n)"
    and "n = PyIntNum L \<or> (n = PyFloatNum L \<and> L < 2 ^ 53)"
    and "1 \<le> L"
    and "distinct (concat subvols_list)"
    and "\<forall>s \<in> set subvols_list. L \<le> int (length s)"
  shows "\<exists>sel g'.
           get_bricks_to_bring_offline_from_replicated_volume
             subvols_list replica_count quorum_info g = (Inr sel, g') \<and>
           distinct sel \<and> set sel \<subseteq> set (concat subvols_list) \<and>
           (\<forall>s \<in> set subvols_list.
              1 \<le> card (set sel \<inter> set s) \<and> int (card (set sel \<inter> set s)) \<le> L)"
proof -
  have ds: "\<forall>s \<in> set subvols_list. distinct s \<and> L \<le> int (length s)"
    using assms(8,9) by (auto simp: distinct_concat_iff)
  from select_from_subvols_picks[OF assms(7) ds assms(6), of "[]" g]
  obtain picks g1 where sel: "select_from_subvols n subvols_list [] g = (Inr (concat picks), g1)"
    and ok: "list_all2 (pick_ok L) picks subvols_list" by auto
  have run: "get_bricks_to_bring_offline_from_replicated_volume
               subvols_list replica_count quorum_info g = (Inr (concat picks), g1)"
    using assms(1-5) sel by (simp add: get_bricks_to_bring_offline_from_replicated_volume_def)
  have "distinct (concat picks)" using picks_disjoint[OF ok assms(8)] by simp
  moreover have "set (concat picks) \<subseteq> set (concat subvols_list)" using picks_subset[OF ok] .
  moreover have "\<forall>s \<in> set subvols_list.
      1 \<le> card (set (concat picks) \<inter> set s) \<and> int (card (set (concat picks) \<inter> set s)) \<le> L"
    using picks_card[OF ok assms(8)] by blast
  ultimately show ?thesis using run by blast
qed

text \<open>
  Two replica sets of three bricks, under a fixed quorum of two and under an automatic
  quorum: the limit is 1 both times, \<open>3 - 2\<close> and the float of \<open>3 div 2\<close>.
\<close>

lemma py_int_text_2: "py_int (PyStr ''2'') = Inr 2"
  by (simp add: int_of_text_def strip_def is_space_def int_literal_def is_digit_def digit_val_def)

lemma py_int_text_3: "py_int (PyStr ''3'') = Inr 3"
  by (simp add: int_of_text_def strip_def is_space_def int_literal_def is_digit_def digit_val_def)

lemma limit_fixed_3_2:
  "offline_bricks_limit (PyStr ''3'') (PyStr ''fixed'') (PyStr ''2'') = Inr (Some (PyIntNum 1))"
  by (simp add: offline_bricks_limit_def py_int_text_2 py_int_text_3 del: py_int.simps)

lemma limit_auto_3:
  "offline_bricks_limit (PyStr ''3'') (PyStr ''auto'') PyNone = Inr (Some (PyFloatNum 1))"
  by (simp add: offline_bricks_limit_def py_int_text_3 float_of_int_exact sublist_code prefix_code
      del: py_int.simps)

theorem replicated_selection_within_limit_witness:
  "(\<exists>sel g'.
     get_bricks_to_bring_offline_from_replicated_volume
       [[''n1:/b1'', ''n2:/b1'', ''n3:/b1''], [''n1:/b2'', ''n2:/b2'', ''n3:/b2'']] (PyStr ''3'')
       [(''is_quorum_applicable'', PyBool True), (''quorum_type'', PyStr ''fixed''),
        (''quorum_count'', PyStr ''2'')] (sconst 0) = (Inr sel, g') \<and>
     distinct sel \<and>
     set sel \<subseteq> set (concat [[''n1:/b1'', ''n2:/b1'', ''n3:/b1''], [''n1:/b2'', ''n2:/b2'', ''n3:/b2'']]) \<and>
     (\<forall>s \<in> set [[''n1:/b1'', ''n2:/b1'', ''n3:/b1''], [''n1:/b2'', ''n2:/b2'', ''n3:/b2'']].
        1 \<le> card (set sel \<inter> set s) \<and> int (card (set sel \<inter> set s)) \<le> 1)) \<and>
   (\<exists>sel g'.
     get_bricks_to_bring_offline_from_replicated_volume
       [[''n1:/b1'', ''n2:/b1'', ''n3:/b1''], [''n1:/b2'', ''n2:/b2'', ''n3:/b2'']] (PyStr ''3'')
       [(''is_quorum_applicable'', PyBool True), (''quorum_type'', PyStr ''auto''),
        (''quorum_count'', PyNone)] (sconst 0) = (Inr sel, g') \<and>
     distinct sel \<and>
     set sel \<subseteq> set (concat [[''n1:/b1'', ''n2:/b1'', ''n3:/b1''], [''n1:/b2'', ''n2:/b2'', ''n3:/b2'']]) \<and>
     (\<forall>s \<in> set [[''n1:/b1'', ''n2:/b1'', ''n3:/b1''], [''n1:/b2'', ''n2:/b2'', ''n3:/b2'']].
        1 \<le> card (set sel \<inter> set s) \<and> int (card (set sel \<inter> set s)) \<le> 1))"
proof (rule conjI)
  show "\<exists>sel g'.
     get_bricks_to_bring_offline_from_replicated_volume
       [[''n1:/b1'', ''n2:/b1'', ''n3:/b1''], [''n1:/b2'', ''n2:/b2'', ''n3:/b2'']] (PyStr ''3'')
       [(''is_quorum_applicable'', PyBool True), (''quorum_type'', PyStr ''fixed''),
        (''quorum_count'', PyStr ''2'')] (sconst 0) = (Inr sel, g') \<and>
     distinct sel \<and>
     set sel \<subseteq> set (concat [[''n1:/b1'', ''n2:/b1'', ''n3:/b1''], [''n1:/b2'', ''n2:/b2'', ''n3:/b2'']]) \<and>
     (\<forall>s \<in> set [[''n1:/b1'', ''n2:/b1'', ''n3:/b1''], [''n1:/b2'', ''n2:/b2'', ''n3:/b2'']].
        1 \<le> card (set sel \<inter> set s) \<and> int (card (set sel \<inter> set s)) \<le> 1)"
    by (rule replicated_selection_within_limit[where a = "PyBool True" and qt = "PyStr ''fixed''"
          and qc = "PyStr ''2''" and n = "PyIntNum 1", OF _ _ _ _ limit_fixed_3_2]) simp_all
  show "\<exists>sel g'.
     get_bricks_to_bring_offline_from_replicated_volume
       [[''n1:/b1'', ''n2:/b1'', ''n3:/b1''], [''n1:/b2'', ''n2:/b2'', ''n3:/b2'']] (PyStr ''3'')
       [(''is_quorum_applicable'', PyBool True), (''quorum_type'', PyStr ''auto''),
        (''quorum_count'', PyNone)] (sconst 0) = (Inr sel, g') \<and>
     distinct sel \<and>
     set sel \<subseteq> set (concat [[''n1:/b1'', ''n2:/b1'', ''n3:/b1''], [''n1:/b2'', ''n2:/b2'', ''n3:/b2'']]) \<and>
     (\<forall>s \<in> set [[''n1:/b1'', ''n2:/b1'', ''n3:/b1''], [''n1:/b2'', ''n2:/b2'', ''n3:/b2'']].
        1 \<le> card (set sel \<inter> set s) \<and> int (card (set sel \<inter> set s)) \<le> 1)"
    by (rule replicated_selection_within_limit[where a = "PyBool True" and qt = "PyStr ''auto''"
          and qc = PyNone and n = "PyFloatNum 1", OF _ _ _ _ limit_auto_3]) simp_all
qed

subsection \<open>The computed limit\<close>

lemma offline_bricks_limit_fixed:
  "py_in ''fixed'' qt = Inr True \<Longrightarrow> qc \<noteq> PyNone \<Longrightarrow> py_int rc = Inr r \<Longrightarrow> py_int qc = Inr c \<Longrightarrow>
   offline_bricks_limit rc qt qc = Inr (Some (PyIntNum (r - c)))"
  by (simp add: offline_bricks_limit_def)

lemma offline_bricks_limit_auto:
  "py_in ''fixed'' qt = Inr False \<Longrightarrow> py_in ''auto'' qt = Inr True \<Longrightarrow> py_int rc = Inr r \<Longrightarrow>
   \<bar>r div 2\<bar> \<le> 2 ^ 53 \<Longrightarrow>
   offline_bricks_limit rc qt qc = Inr (Some (PyFloatNum (r div 2)))"
  by (simp add: offline_bricks_limit_def float_of_int_exact)

lemma offline_bricks_limit_none:
  "offline_bricks_limit rc PyNone qc = Inl TypeError"
  by (simp add: offline_bricks_limit_def)

text \<open>
  Claim C2. With a fixed quorum and a count the limit is the replica count minus the
  quorum count (\<open>offline_bricks_limit_fixed\<close>); with an automatic quorum it is the float
  of half the replica count rounded down, since the division floors before
  \<^verbatim>\<open>ceil\<close> is applied (\<open>offline_bricks_limit_auto\<close>). With no quorum type
  (\<^verbatim>\<open>quorum_type\<close> is \<^verbatim>\<open>None\<close>) the limit \<open>replica_count - 1\<close> is never
  computed: the test \<^verbatim>\<open>'fixed' in quorum_type\<close> comes first and raises
  \<^verbatim>\<open>TypeError\<close>, for a volume of two replicas as for any other.
\<close>

theorem quorum_type_none_raises:
  "offline_bricks_limit (PyStr ''2'') PyNone PyNone = Inl TypeError \<and>
   get_bricks_to_bring_offline_from_replicated_volume
     [[''n1:/b1'', ''n2:/b1'']] (PyStr ''2'')
     [(''is_quorum_applicable'', PyBool True), (''quorum_type'', PyNone),
      (''quorum_count'', PyNone)] g = (Inl TypeError, g)"
  by (simp add: get_bricks_to_bring_offline_from_replicated_volume_def offline_bricks_limit_def)

lemma select_from_subvols_empty_range:
  "L < 1 \<Longrightarrow> fst (select_from_subvols (PyIntNum L) (s # rest) acc g) = Inl ValueError"
  by (simp add: random_randint_def split: prod.splits)

text \<open>
  Claim C3. A limit of 0 does not skip the subvolume: for two replicas under a fixed
  quorum of two, \<^verbatim>\<open>random.randint(1, 0)\<close> raises \<^verbatim>\<open>ValueError\<close> in the first
  round of the loop, whatever the random source.
\<close>

theorem limit_zero_raises:
  "fst (get_bricks_to_bring_offline_from_replicated_volume
     [[''n1:/b1'', ''n2:/b1'']] (PyStr ''2'')
     [(''is_quorum_applicable'', PyBool True), (''quorum_type'', PyStr ''fixed''),
      (''quorum_count'', PyStr ''2'')] g) = Inl ValueError"
proof -
  have l: "offline_bricks_limit (PyStr ''2'') (PyStr ''fixed'') (PyStr ''2'')
      = Inr (Some (PyIntNum 0))"
    by (simp add: offline_bricks_limit_def py_int_text_2 del: py_int.simps)
  show ?thesis
    by (simp add: get_bricks_to_bring_offline_from_replicated_volume_def l
        select_from_subvols_empty_range del: select_from_subvols.simps)
qed

text \<open>
  Claim C9. When the quorum type contains \<^verbatim>\<open>fixed\<close> and the quorum count is
  \<^verbatim>\<open>None\<close>, or the quorum type is a text that contains neither \<^verbatim>\<open>fixed\<close> nor
  \<^verbatim>\<open>auto\<close>, the function returns the empty list and draws nothing from the random
  source, whether quorum applies or not.
\<close>

theorem inconsistent_quorum_returns_empty:
  assumes "map_of quorum_info ''quorum_type'' = Some qt"
    and "map_of quorum_info ''quorum_count'' = Some qc"
    and "(py_in ''fixed'' qt = Inr True \<and> qc = PyNone) \<or>
         (\<exists>s. qt = PyStr s \<and> \<not> sublist ''fixed'' s \<and> \<not> sublist ''auto'' s)"
  shows "get_bricks_to_bring_offline_from_replicated_volume
           subvols_list replica_count quorum_info g = (Inr [], g)"
proof -
  have "offline_bricks_limit replica_count qt qc = Inr None"
    using assms(3) by (auto simp: offline_bricks_limit_def)
  then show ?thesis using assms(1,2)
    by (simp add: get_bricks_to_bring_offline_from_replicated_volume_def split: option.splits)
qed

theorem inconsistent_quorum_returns_empty_witness:
  "get_bricks_to_bring_offline_from_replicated_volume
     [[''n1:/b1'', ''n2:/b1'']] (PyStr ''2'')
     [(''is_quorum_applicable'', PyBool True), (''quorum_type'', PyStr ''fixed''),
      (''quorum_count'', PyNone)] (sconst 0) = (Inr [], sconst 0) \<and>
   get_bricks_to_bring_offline_from_replicated_volume
     [[''n1:/b1'', ''n2:/b1'']] (PyStr ''2'')
     [(''is_quorum_applicable'', PyBool True), (''quorum_type'', PyStr ''none''),
      (''quorum_count'', PyNone)] (sconst 0) = (Inr [], sconst 0)"
proof -
  have n: "\<not> sublist ''fixed'' ''none''" "\<not> sublist ''auto'' ''none''"
    by (simp_all add: sublist_code prefix_code)
  show ?thesis
    using inconsistent_quorum_returns_empty[of
        "[(''is_quorum_applicable'', PyBool True), (''quorum_type'', PyStr ''fixed''),
          (''quorum_count'', PyNone)]" "PyStr ''fixed''" PyNone
        "[[''n1:/b1'', ''n2:/b1'']]" "PyStr ''2''" "sconst 0"]
      inconsistent_quorum_returns_empty[of
        "[(''is_quorum_applicable'', PyBool True), (''quorum_type'', PyStr ''none''),
          (''quorum_count'', PyNone)]" "PyStr ''none''" PyNone
        "[[''n1:/b1'', ''n2:/b1'']]" "PyStr ''2''" "sconst 0"] n
    by simp
qed

lemma disperse_select_eq:
  "py_int redundancy_count = Inr R \<Longrightarrow>
   disperse_select_from_subvols redundancy_count subvols acc g =
   select_from_subvols (PyIntNum R) subvols acc g"
  by (induction subvols arbitrary: acc g) (auto split: prod.splits sum.splits)

subsection \<open>Dispersed volumes\<close>

lemma disperse_selection:
  assumes "py_int redundancy_count = Inr R" and "1 \<le> R"
    and "distinct (concat subvols_list)"
    and "\<forall>s \<in> set subvols_list. R \<le> int (length s)"
  shows "\<exists>sel g'.
           get_bricks_to_bring_offline_from_disperse_volume subvols_list redundancy_count g
             = (Inr sel, g') \<and>
           distinct sel \<and> set sel \<subseteq> set (concat subvols_list) \<and>
           (\<forall>s \<in> set subvols_list.
              1 \<le> card (set sel \<inter> set s) \<and> int (card (set sel \<inter> set s)) \<le> R)"
proof -
  have ds: "\<forall>s \<in> set subvols_list. distinct s \<and> R \<le> int (length s)"
    using assms(3,4) by (auto simp: distinct_concat_iff)
  from select_from_subvols_picks[OF assms(2) ds, of "PyIntNum R" "[]" g]
  obtain picks g1 where sel:
      "select_from_subvols (PyIntNum R) subvols_list [] g = (Inr (concat picks), g1)"
    and ok: "list_all2 (pick_ok R) picks subvols_list" by auto
  have run: "get_bricks_to_bring_offline_from_disperse_volume subvols_list redundancy_count g
               = (Inr (concat picks), g1)"
    using sel by (simp add: get_bricks_to_bring_offline_from_disperse_volume_def
        disperse_select_eq[OF assms(1)])
  have "distinct (concat picks)" using picks_disjoint[OF ok assms(3)] by simp
  moreover have "set (concat picks) \<subseteq> set (concat subvols_list)" using picks_subset[OF ok] .
  moreover have "\<forall>s \<in> set subvols_list.
      1 \<le> card (set (concat picks) \<inter> set s) \<and> int (card (set (concat picks) \<inter> set s)) \<le> R"
    using picks_card[OF ok assms(3)] by blast
  ultimately show ?thesis using run by blast
qed

text \<open>
  Claim C8. For a dispersed topology with redundancy count \<open>R \<ge> 1\<close> (subvolumes of
  pairwise different bricks, each with at least \<open>R\<close> of them) the function returns a
  selection with at least one and at most \<open>R\<close> bricks of each subvolume and no brick
  twice; for one subvolume of six bricks and \<open>R = 2\<close> it returns one or two bricks of
  that subvolume.
\<close>

theorem disperse_selection_within_redundancy:
  "(py_int redundancy_count = Inr R \<and> 1 \<le> R \<and> distinct (concat subvols_list) \<and>
    (\<forall>s \<in> set subvols_list. R \<le> int (length s)) \<longrightarrow>
    (\<exists>sel g'.
       get_bricks_to_bring_offline_from_disperse_volume subvols_list redundancy_count g
         = (Inr sel, g') \<and>
       distinct sel \<and> set sel \<subseteq> set (concat subvols_list) \<and>
       (\<forall>s \<in> set subvols_list.
          1 \<le> card (set sel \<inter> set s) \<and> int (card (set sel \<inter> set s)) \<le> R))) \<and>
   (py_int redundancy_count = Inr 2 \<and> distinct subvol \<and> length subvol = 6 \<longrightarrow>
    (\<exists>sel g'.
       get_bricks_to_bring_offline_from_disperse_volume [subvol] redundancy_count g
         = (Inr sel, g') \<and>
       distinct sel \<and> set sel \<subseteq> set subvol \<and> (length sel = 1 \<or> length sel = 2)))"
proof (intro conjI impI)
  assume "py_int redundancy_count = Inr R \<and> 1 \<le> R \<and> distinct (concat subvols_list) \<and>
    (\<forall>s \<in> set subvols_list. R \<le> int (length s))"
  then show "\<exists>sel g'.
       get_bricks_to_bring_offline_from_disperse_volume subvols_list redundancy_count g
         = (Inr sel, g') \<and>
       distinct sel \<and> set sel \<subseteq> set (concat subvols_list) \<and>
       (\<forall>s \<in> set subvols_list.
          1 \<le> card (set sel \<inter> set s) \<and> int (card (set sel \<inter> set s)) \<le> R)"
    using disperse_selection[of redundancy_count R subvols_list g] by blast
next
  assume a: "py_int redundancy_count = Inr 2 \<and> distinct subvol \<and> length subvol = 6"
  from disperse_selection[of redundancy_count 2 "[subvol]" g] a
  obtain sel g' where r: "get_bricks_to_bring_offline_from_disperse_volume [subvol] redundancy_count g
         = (Inr sel, g')" "distinct sel" "set sel \<subseteq> set subvol"
       "1 \<le> card (set sel \<inter> set subvol)" "int (card (set sel \<inter> set subvol)) \<le> 2"
    by auto
  have "set sel \<inter> set subvol = set sel" using r(3) by auto
  then have "card (set sel \<inter> set subvol) = length sel" using r(2) by (simp add: distinct_card)
  with r show "\<exists>sel g'.
       get_bricks_to_bring_offline_from_disperse_volume [subvol] redundancy_count g
         = (Inr sel, g') \<and>
       distinct sel \<and> set sel \<subseteq> set subvol \<and> (length sel = 1 \<or> length sel = 2)"
    by (intro exI[of _ sel] exI[of _ g']) auto
qed

theorem disperse_selection_within_redundancy_witness:
  "(\<exists>sel g'.
     get_bricks_to_bring_offline_from_disperse_volume
       [[''n1:/b1'', ''n2:/b1'', ''n3:/b1'', ''n4:/b1'', ''n5:/b1'', ''n6:/b1'']] (PyStr ''2'')
       (sconst 0) = (Inr sel, g') \<and>
     distinct sel \<and>
     set sel \<subseteq> set (concat [[''n1:/b1'', ''n2:/b1'', ''n3:/b1'', ''n4:/b1'', ''n5:/b1'', ''n6:/b1'']]) \<and>
     (\<forall>s \<in> set [[''n1:/b1'', ''n2:/b1'', ''n3:/b1'', ''n4:/b1'', ''n5:/b1'', ''n6:/b1'']].
        1 \<le> card (set sel \<inter> set s) \<and> int (card (set sel \<inter> set s)) \<le> 2)) \<and>
   (\<exists>sel g'.
     get_bricks_to_bring_offline_from_disperse_volume
       [[''n1:/b1'', ''n2:/b1'', ''n3:/b1'', ''n4:/b1'', ''n5:/b1'', ''n6:/b1'']] (PyStr ''2'')
       (sconst 0) = (Inr sel, g') \<and>
     distinct sel \<and>
     set sel \<subseteq> set [''n1:/b1'', ''n2:/b1'', ''n3:/b1'', ''n4:/b1'', ''n5:/b1'', ''n6:/b1''] \<and>
     (length sel = 1 \<or> length sel = 2))"
proof -
  let ?s = "[''n1:/b1'', ''n2:/b1'', ''n3:/b1'', ''n4:/b1'', ''n5:/b1'', ''n6:/b1'']"
  have h1: "py_int (PyStr ''2'') = Inr 2 \<and> (1::int) \<le> 2 \<and> distinct (concat [?s]) \<and>
     (\<forall>s \<in> set [?s]. 2 \<le> int (length s))"
    using py_int_text_2 by simp
  have h2: "py_int (PyStr ''2'') = Inr 2 \<and> distinct ?s \<and> length ?s = 6"
    using py_int_text_2 by simp
  show ?thesis
    using disperse_selection_within_redundancy[where redundancy_count = "PyStr ''2''" and R = 2
        and subvols_list = "[?s]" and subvol = ?s and g = "sconst 0"] h1 h2
    by blast
qed

subsection \<open>Empty selections\<close>

text \<open>
  Claim C6, amended. A volume, hot tier or cold tier of type \<^verbatim>\<open>Distribute\<close> (its type
  info and subvolumes present) yields the empty selection. The replicated selector yields
  the empty selection for every quorum info whose \<^verbatim>\<open>is_quorum_applicable\<close> is false,
  and so does a volume, hot tier or cold tier of type \<^verbatim>\<open>Replicate\<close> or
  \<^verbatim>\<open>Distributed-Replicate\<close> (its type info, subvolumes and replica count present) with
  such a quorum info. The random source is not touched.
\<close>

theorem distribute_or_no_quorum_selects_nothing:
  "(\<not> is_tiered_volume c \<and>
    subscript (get_volume_type_info c) ''volume_type_info'' = Inr info \<and>
    subscript info ''typeStr'' = Inr (PyStr ''Distribute'') \<and>
    subscript (get_subvols c) ''volume_subvols'' = Inr subvols \<longrightarrow>
      select_volume_bricks_to_bring_offline c g = (Inr [], g) \<and>
      select_bricks_to_bring_offline c g =
        (Inr [(''is_tier'', PyBool False), (''hot_tier_bricks'', PyList []),
              (''cold_tier_bricks'', PyList []), (''volume_bricks'', PyList [])], g)) \<and>
   (is_tiered_volume c \<and>
    subscript (get_volume_type_info c) ''hot_tier_type_info'' = Inr info \<and>
    subscript info ''hotBrickType'' = Inr (PyStr ''Distribute'') \<and>
    subscript (get_subvols c) ''hot_tier_subvols'' = Inr subvols \<longrightarrow>
      select_hot_tier_bricks_to_bring_offline c g = (Inr [], g)) \<and>
   (is_tiered_volume c \<and>
    subscript (get_volume_type_info c) ''cold_tier_type_info'' = Inr info \<and>
    subscript info ''coldBrickType'' = Inr (PyStr ''Distribute'') \<and>
    subscript (get_subvols c) ''cold_tier_subvols'' = Inr subvols \<longrightarrow>
      select_cold_tier_bricks_to_bring_offline c g = (Inr [], g)) \<and>
   (map_of quorum_info ''is_quorum_applicable'' = Some a \<and> \<not> py_truthy a \<longrightarrow>
      get_bricks_to_bring_offline_from_replicated_volume subvols_list replica_count quorum_info g
        = (Inr [], g)) \<and>
   (\<not> is_tiered_volume c \<and>
    subscript (get_volume_type_info c) ''volume_type_info'' = Inr info \<and>
    (subscript info ''typeStr'' = Inr (PyStr ''Replicate'') \<or>
     subscript info ''typeStr'' = Inr (PyStr ''Distributed-Replicate'')) \<and>
    subscript (get_subvols c) ''volume_subvols'' = Inr subvols \<and>
    subscript info ''replicaCount'' = Inr replica_count \<and>
    subscript (get_client_quorum_info c) ''volume_quorum_info'' = Inr quorum_info \<and>
    map_of quorum_info ''is_quorum_applicable'' = Some a \<and> \<not> py_truthy a \<longrightarrow>
      select_volume_bricks_to_bring_offline c g = (Inr [], g)) \<and>
   (is_tiered_volume c \<and>
    subscript (get_volume_type_info c) ''hot_tier_type_info'' = Inr info \<and>
    (subscript info ''hotBrickType'' = Inr (PyStr ''Replicate'') \<or>
     subscript info ''hotBrickType'' = Inr (PyStr ''Distributed-Replicate'')) \<and>
    subscript (get_subvols c) ''hot_tier_subvols'' = Inr subvols \<and>
    subscript info ''hotreplicaCount'' = Inr replica_count \<and>
    subscript (get_client_quorum_info c) ''hot_tier_quorum_info'' = Inr quorum_info \<and>
    map_of quorum_info ''is_quorum_applicable'' = Some a \<and> \<not> py_truthy a \<longrightarrow>
      select_hot_tier_bricks_to_bring_offline c g = (Inr [], g)) \<and>
   (is_tiered_volume c \<and>
    subscript (get_volume_type_info c) ''cold_tier_type_info'' = Inr info \<and>
    (subscript info ''coldBrickType'' = Inr (PyStr ''Replicate'') \<or>
     subscript info ''coldBrickType'' = Inr (PyStr ''Distributed-Replicate'')) \<and>
    subscript (get_subvols c) ''cold_tier_subvols'' = Inr subvols \<and>
    subscript info ''coldreplicaCount'' = Inr replica_count \<and>
    subscript (get_client_quorum_info c) ''cold_tier_quorum_info'' = Inr quorum_info \<and>
    map_of quorum_info ''is_quorum_applicable'' = Some a \<and> \<not> py_truthy a \<longrightarrow>
      select_cold_tier_bricks_to_bring_offline c g = (Inr [], g))"
proof -
  have nq: "get_bricks_to_bring_offline_from_replicated_volume sl rc qi g = (Inr [], g)"
    if "map_of qi ''is_quorum_applicable'' = Some a \<and> \<not> py_truthy a" for sl rc qi
    using that
    by (simp add: get_bricks_to_bring_offline_from_replicated_volume_def split: option.splits)
  show ?thesis
  proof (intro conjI impI)
    assume h: "\<not> is_tiered_volume c \<and>
      subscript (get_volume_type_info c) ''volume_type_info'' = Inr info \<and>
      subscript info ''typeStr'' = Inr (PyStr ''Distribute'') \<and>
      subscript (get_subvols c) ''volume_subvols'' = Inr subvols"
    then show v: "select_volume_bricks_to_bring_offline c g = (Inr [], g)"
      by (simp add: select_volume_bricks_to_bring_offline_def)
    show "select_bricks_to_bring_offline c g =
          (Inr [(''is_tier'', PyBool False), (''hot_tier_bricks'', PyList []),
                (''cold_tier_bricks'', PyList []), (''volume_bricks'', PyList [])], g)"
      using h v by (simp add: select_bricks_to_bring_offline_def Let_def)
  next
    assume "is_tiered_volume c \<and>
      subscript (get_volume_type_info c) ''hot_tier_type_info'' = Inr info \<and>
      subscript info ''hotBrickType'' = Inr (PyStr ''Distribute'') \<and>
      subscript (get_subvols c) ''hot_tier_subvols'' = Inr subvols"
    then show "select_hot_tier_bricks_to_bring_offline c g = (Inr [], g)"
      by (simp add: select_hot_tier_bricks_to_bring_offline_def)
  next
    assume "is_tiered_volume c \<and>
      subscript (get_volume_type_info c) ''cold_tier_type_info'' = Inr info \<and>
      subscript info ''coldBrickType'' = Inr (PyStr ''Distribute'') \<and>
      subscript (get_subvols c) ''cold_tier_subvols'' = Inr subvols"
    then show "select_cold_tier_bricks_to_bring_offline c g = (Inr [], g)"
      by (simp add: select_cold_tier_bricks_to_bring_offline_def)
  next
    assume "map_of quorum_info ''is_quorum_applicable'' = Some a \<and> \<not> py_truthy a"
    then show "get_bricks_to_bring_offline_from_replicated_volume subvols_list replica_count
        quorum_info g = (Inr [], g)"
      by (rule nq)
  next
    assume h: "\<not> is_tiered_volume c \<and>
      subscript (get_volume_type_info c) ''volume_type_info'' = Inr info \<and>
      (subscript info ''typeStr'' = Inr (PyStr ''Replicate'') \<or>
       subscript info ''typeStr'' = Inr (PyStr ''Distributed-Replicate'')) \<and>
      subscript (get_subvols c) ''volume_subvols'' = Inr subvols \<and>
      subscript info ''replicaCount'' = Inr replica_count \<and>
      subscript (get_client_quorum_info c) ''volume_quorum_info'' = Inr quorum_info \<and>
      map_of quorum_info ''is_quorum_applicable'' = Some a \<and> \<not> py_truthy a"
    then have "get_bricks_to_bring_offline_from_replicated_volume subvols replica_count
        quorum_info g = (Inr [], g)"
      using nq by blast
    with h show "select_volume_bricks_to_bring_offline c g = (Inr [], g)"
      by (auto simp: select_volume_bricks_to_bring_offline_def)
  next
    assume h: "is_tiered_volume c \<and>
      subscript (get_volume_type_info c) ''hot_tier_type_info'' = Inr info \<and>
      (subscript info ''hotBrickType'' = Inr (PyStr ''Replicate'') \<or>
       subscript info ''hotBrickType'' = Inr (PyStr ''Distributed-Replicate'')) \<and>
      subscript (get_subvols c) ''hot_tier_subvols'' = Inr subvols \<and>
      subscript info ''hotreplicaCount'' = Inr replica_count \<and>
      subscript (get_client_quorum_info c) ''hot_tier_quorum_info'' = Inr quorum_info \<and>
      map_of quorum_info ''is_quorum_applicable'' = Some a \<and> \<not> py_truthy a"
    then have "get_bricks_to_bring_offline_from_replicated_volume subvols replica_count
        quorum_info g = (Inr [], g)"
      using nq by blast
    with h show "select_hot_tier_bricks_to_bring_offline c g = (Inr [], g)"
      by (auto simp: select_hot_tier_bricks_to_bring_offline_def)
  next
    assume h: "is_tiered_volume c \<and>
      subscript (get_volume_type_info c) ''cold_tier_type_info'' = Inr info \<and>
      (subscript info ''coldBrickType'' = Inr (PyStr ''Replicate'') \<or>
       subscript info ''coldBrickType'' = Inr (PyStr ''Distributed-Replicate'')) \<and>
      subscript (get_subvols c) ''cold_tier_subvols'' = Inr subvols \<and>
      subscript info ''coldreplicaCount'' = Inr replica_count \<and>
      subscript (get_client_quorum_info c) ''cold_tier_quorum_info'' = Inr quorum_info \<and>
      map_of quorum_info ''is_quorum_applicable'' = Some a \<and> \<not> py_truthy a"
    then have "get_bricks_to_bring_offline_from_replicated_volume subvols replica_count
        quorum_info g = (Inr [], g)"
      using nq by blast
    with h show "select_cold_tier_bricks_to_bring_offline c g = (Inr [], g)"
      by (auto simp: select_cold_tier_bricks_to_bring_offline_def)
  qed
qed

theorem distribute_or_no_quorum_selects_nothing_witness:
  "select_volume_bricks_to_bring_offline distribute_volume (sconst 0) = (Inr [], sconst 0) \<and>
   select_bricks_to_bring_offline distribute_volume (sconst 0) =
     (Inr [(''is_tier'', PyBool False), (''hot_tier_bricks'', PyList []),
           (''cold_tier_bricks'', PyList []), (''volume_bricks'', PyList [])], sconst 0) \<and>
   select_hot_tier_bricks_to_bring_offline distribute_tiers (sconst 0) = (Inr [], sconst 0) \<and>
   select_cold_tier_bricks_to_bring_offline distribute_tiers (sconst 0) = (Inr [], sconst 0) \<and>
   get_bricks_to_bring_offline_from_replicated_volume
     [[''n1:/b1'', ''n2:/b1'']] (PyStr ''2'')
     [(''is_quorum_applicable'', PyBool False), (''quorum_type'', PyNone),
      (''quorum_count'', PyNone)] (sconst 0) = (Inr [], sconst 0) \<and>
   select_volume_bricks_to_bring_offline replicate_no_quorum (sconst 0) = (Inr [], sconst 0) \<and>
   select_hot_tier_bricks_to_bring_offline replicate_tiers_no_quorum (sconst 0)
     = (Inr [], sconst 0) \<and>
   select_cold_tier_bricks_to_bring_offline replicate_tiers_no_quorum (sconst 0)
     = (Inr [], sconst 0)"
proof -
  let ?nq = "[(''is_quorum_applicable'', PyBool False), (''quorum_type'', PyNone),
      (''quorum_count'', PyNone)]"
  have 1: "select_volume_bricks_to_bring_offline distribute_volume (sconst 0) = (Inr [], sconst 0) \<and>
   select_bricks_to_bring_offline distribute_volume (sconst 0) =
     (Inr [(''is_tier'', PyBool False), (''hot_tier_bricks'', PyList []),
           (''cold_tier_bricks'', PyList []), (''volume_bricks'', PyList [])], sconst 0)"
    using distribute_or_no_quorum_selects_nothing[where c = distribute_volume
        and info = "[(''typeStr'', PyStr ''Distribute'')]"
        and subvols = "[[''n1:/b1''], [''n2:/b1'']]" and g = "sconst 0"]
    by (simp add: distribute_volume_def subscript_def)
  have 2: "select_hot_tier_bricks_to_bring_offline distribute_tiers (sconst 0) = (Inr [], sconst 0)"
    using distribute_or_no_quorum_selects_nothing[where c = distribute_tiers
        and info = "[(''hotBrickType'', PyStr ''Distribute'')]"
        and subvols = "[[''n1:/hot1''], [''n2:/hot1'']]" and g = "sconst 0"]
    by (simp add: distribute_tiers_def subscript_def)
  have 3: "select_cold_tier_bricks_to_bring_offline distribute_tiers (sconst 0) = (Inr [], sconst 0)"
    using distribute_or_no_quorum_selects_nothing[where c = distribute_tiers
        and info = "[(''coldBrickType'', PyStr ''Distribute'')]"
        and subvols = "[[''n1:/cold1''], [''n2:/cold1'']]" and g = "sconst 0"]
    by (simp add: distribute_tiers_def subscript_def)
  have 4: "get_bricks_to_bring_offline_from_replicated_volume
     [[''n1:/b1'', ''n2:/b1'']] (PyStr ''2'') ?nq (sconst 0) = (Inr [], sconst 0)"
    using distribute_or_no_quorum_selects_nothing[where a = "PyBool False"
        and quorum_info = ?nq and g = "sconst 0"]
    by simp
  have 5: "select_volume_bricks_to_bring_offline replicate_no_quorum (sconst 0)
      = (Inr [], sconst 0)"
    using distribute_or_no_quorum_selects_nothing[where c = replicate_no_quorum
        and info = "[(''typeStr'', PyStr ''Replicate''), (''replicaCount'', PyStr ''2'')]"
        and subvols = "[[''n1:/b1'', ''n2:/b1'']]" and replica_count = "PyStr ''2''"
        and quorum_info = ?nq and a = "PyBool False" and g = "sconst 0"]
    by (simp add: replicate_no_quorum_def subscript_def)
  have 6: "select_hot_tier_bricks_to_bring_offline replicate_tiers_no_quorum (sconst 0)
      = (Inr [], sconst 0)"
    using distribute_or_no_quorum_selects_nothing[where c = replicate_tiers_no_quorum
        and info = "[(''hotBrickType'', PyStr ''Replicate''), (''hotreplicaCount'', PyStr ''2'')]"
        and subvols = "[[''n1:/hot1'', ''n2:/hot1'']]" and replica_count = "PyStr ''2''"
        and quorum_info = ?nq and a = "PyBool False" and g = "sconst 0"]
    by (simp add: replicate_tiers_no_quorum_def subscript_def)
  have 7: "select_cold_tier_bricks_to_bring_offline replicate_tiers_no_quorum (sconst 0)
      = (Inr [], sconst 0)"
    using distribute_or_no_quorum_selects_nothing[where c = replicate_tiers_no_quorum
        and info = "[(''coldBrickType'', PyStr ''Distributed-Replicate''),
                     (''coldreplicaCount'', PyStr ''2'')]"
        and subvols = "[[''n1:/cold1'', ''n2:/cold1''], [''n1:/cold2'', ''n2:/cold2'']]"
        and replica_count = "PyStr ''2''"
        and quorum_info = ?nq and a = "PyBool False" and g = "sconst 0"]
    by (simp add: replicate_tiers_no_quorum_def subscript_def)
  show ?thesis using 1 2 3 4 5 6 7 by blast
qed

text \<open>
  Claim C6 as stated fails for a dispersed volume: its selection never reads the quorum
  info. One subvolume of three bricks with redundancy count 1, and a quorum info whose
  \<^verbatim>\<open>is_quorum_applicable\<close> is false: a brick is selected.
\<close>

lemma py_int_text_1: "py_int (PyStr ''1'') = Inr 1"
  by (simp add: int_of_text_def strip_def is_space_def int_literal_def is_digit_def digit_val_def)

theorem dispersed_ignores_quorum_counterexample:
  "subscript (get_client_quorum_info disperse_no_quorum) ''volume_quorum_info'' =
     Inr [(''is_quorum_applicable'', PyBool False), (''quorum_type'', PyNone),
          (''quorum_count'', PyNone)] \<and>
   select_volume_bricks_to_bring_offline disperse_no_quorum (sconst 0)
     = (Inr [''n2:/b1''], sconst 0) \<and>
   select_bricks_to_bring_offline disperse_no_quorum (sconst 0) =
     (Inr [(''is_tier'', PyBool False), (''hot_tier_bricks'', PyList []),
           (''cold_tier_bricks'', PyList []), (''volume_bricks'', PyList [''n2:/b1''])],
      sconst 0)"
proof -
  have sh: "random_shuffle [''n1:/b1'', ''n2:/b1'', ''n3:/b1''] (sconst 0)
      = ([''n2:/b1'', ''n3:/b1'', ''n1:/b1''], sconst 0)"
    by (simp add: random_shuffle_def randbelow_def numeral_2_eq_2)
  have ri: "random_randint 1 (PyIntNum 1) (sconst 0) = (Inr 1, sconst 0)"
    by (simp add: random_randint_def randbelow_def)
  have sa: "random_sample [''n2:/b1'', ''n3:/b1'', ''n1:/b1''] 1 (sconst 0)
      = (Inr [''n2:/b1''], sconst 0)"
    by (simp add: random_sample_def randbelow_def)
  have d: "get_bricks_to_bring_offline_from_disperse_volume
      [[''n1:/b1'', ''n2:/b1'', ''n3:/b1'']] (PyStr ''1'') (sconst 0)
      = (Inr [''n2:/b1''], sconst 0)"
    by (simp add: get_bricks_to_bring_offline_from_disperse_volume_def py_int_text_1 sh ri sa
        del: py_int.simps)
  have v: "select_volume_bricks_to_bring_offline disperse_no_quorum (sconst 0)
      = (Inr [''n2:/b1''], sconst 0)"
    by (simp add: select_volume_bricks_to_bring_offline_def disperse_no_quorum_def subscript_def d)
  have nt: "get_volume_info disperse_no_quorum \<noteq> None" "\<not> is_tiered_volume disperse_no_quorum"
    by (simp_all add: disperse_no_quorum_def)
  have t: "select_bricks_to_bring_offline disperse_no_quorum (sconst 0) =
     (Inr [(''is_tier'', PyBool False), (''hot_tier_bricks'', PyList []),
           (''cold_tier_bricks'', PyList []), (''volume_bricks'', PyList [''n2:/b1''])],
      sconst 0)"
    using nt by (auto simp: select_bricks_to_bring_offline_def Let_def v)
  have q: "subscript (get_client_quorum_info disperse_no_quorum) ''volume_quorum_info'' =
     Inr [(''is_quorum_applicable'', PyBool False), (''quorum_type'', PyNone),
          (''quorum_count'', PyNone)]"
    by (simp add: disperse_no_quorum_def subscript_def)
  show ?thesis using q v t by blast
qed

subsection \<open>The returned dictionary\<close>

lemma select_tier_keys:
  "select_tier_volume_bricks_to_bring_offline c g = (Inr d, g') \<Longrightarrow>
   map fst d = [''hot_tier_bricks'', ''cold_tier_bricks'']"
  by (auto simp: select_tier_volume_bricks_to_bring_offline_def Let_def
      split: if_splits prod.splits sum.splits)

text \<open>
  Claim C10. For a tiered volume whose volume info is available,
  \<^verbatim>\<open>select_bricks_to_bring_offline\<close> returns what
  \<^verbatim>\<open>select_tier_volume_bricks_to_bring_offline\<close> returns: a dictionary with the keys
  \<^verbatim>\<open>hot_tier_bricks\<close> and \<^verbatim>\<open>cold_tier_bricks\<close> only, without \<^verbatim>\<open>is_tier\<close>
  and without \<^verbatim>\<open>volume_bricks\<close>.
\<close>

theorem tiered_result_has_tier_keys_only:
  assumes "get_volume_info c \<noteq> None" and "is_tiered_volume c"
  shows "select_bricks_to_bring_offline c g = select_tier_volume_bricks_to_bring_offline c g \<and>
         (\<forall>d g'. select_bricks_to_bring_offline c g = (Inr d, g') \<longrightarrow>
            map fst d = [''hot_tier_bricks'', ''cold_tier_bricks''] \<and>
            map_of d ''is_tier'' = None \<and> map_of d ''volume_bricks'' = None)"
proof -
  have eq: "select_bricks_to_bring_offline c g = select_tier_volume_bricks_to_bring_offline c g"
    using assms by (auto simp: select_bricks_to_bring_offline_def Let_def)
  have "map fst d = [''hot_tier_bricks'', ''cold_tier_bricks''] \<and>
        map_of d ''is_tier'' = None \<and> map_of d ''volume_bricks'' = None"
    if "select_bricks_to_bring_offline c g = (Inr d, g')" for d g'
  proof -
    have k: "map fst d = [''hot_tier_bricks'', ''cold_tier_bricks'']"
      using that eq select_tier_keys by simp
    have "fst ` set d = set [''hot_tier_bricks'', ''cold_tier_bricks'']"
      using k by (metis list.set_map)
    then show ?thesis using k by (simp add: map_of_eq_None_iff)
  qed
  with eq show ?thesis by blast
qed

theorem tiered_result_has_tier_keys_only_witness:
  "select_bricks_to_bring_offline distribute_tiers (sconst 0) =
     (Inr [(''hot_tier_bricks'', PyList []), (''cold_tier_bricks'', PyList [])], sconst 0) \<and>
   map fst [(''hot_tier_bricks'', PyList []), (''cold_tier_bricks'', PyList [])] =
     [''hot_tier_bricks'', ''cold_tier_bricks''] \<and>
   map_of [(''hot_tier_bricks'', PyList []), (''cold_tier_bricks'', PyList [])] ''is_tier'' = None \<and>
   map_of [(''hot_tier_bricks'', PyList []), (''cold_tier_bricks'', PyList [])] ''volume_bricks''
     = None"
proof -
  have h: "get_volume_info distribute_tiers \<noteq> None" "is_tiered_volume distribute_tiers"
    by (simp_all add: distribute_tiers_def)
  have hot: "select_hot_tier_bricks_to_bring_offline distribute_tiers (sconst 0) = (Inr [], sconst 0)"
    by (simp add: select_hot_tier_bricks_to_bring_offline_def distribute_tiers_def subscript_def)
  have cold: "select_cold_tier_bricks_to_bring_offline distribute_tiers (sconst 0) = (Inr [], sconst 0)"
    by (simp add: select_cold_tier_bricks_to_bring_offline_def distribute_tiers_def subscript_def)
  have t: "select_tier_volume_bricks_to_bring_offline distribute_tiers (sconst 0) =
     (Inr [(''hot_tier_bricks'', PyList []), (''cold_tier_bricks'', PyList [])], sconst 0)"
    using h by (auto simp: select_tier_volume_bricks_to_bring_offline_def Let_def hot cold)
  from tiered_result_has_tier_keys_only[OF h, of "sconst 0"] t
  show ?thesis by simp
qed

text \<open>
  Claim C5. \<^verbatim>\<open>select_bricks_to_bring_offline\<close> can fail: for a replicated volume of
  two replicas with a fixed quorum of two the limit is 0 and the call ends with the
  \<^verbatim>\<open>ValueError\<close> of \<^verbatim>\<open>random.randint(1, 0)\<close>, whatever the random source.
\<close>

theorem select_bricks_to_bring_offline_raises:
  "fst (select_bricks_to_bring_offline replica_two_fixed_two g) = Inl ValueError"
proof -
  have l: "offline_bricks_limit (PyStr ''2'') (PyStr ''fixed'') (PyStr ''2'')
      = Inr (Some (PyIntNum 0))"
    by (simp add: offline_bricks_limit_def py_int_text_2 del: py_int.simps)
  have r: "fst (get_bricks_to_bring_offline_from_replicated_volume
     [[''n1:/b1'', ''n2:/b1'']] (PyStr ''2'')
     [(''is_quorum_applicable'', PyBool True), (''quorum_type'', PyStr ''fixed''),
      (''quorum_count'', PyStr ''2'')] g) = Inl ValueError"
    by (simp add: get_bricks_to_bring_offline_from_replicated_volume_def l
        select_from_subvols_empty_range del: select_from_subvols.simps)
  have v: "select_volume_bricks_to_bring_offline replica_two_fixed_two g =
     get_bricks_to_bring_offline_from_replicated_volume
     [[''n1:/b1'', ''n2:/b1'']] (PyStr ''2'')
     [(''is_quorum_applicable'', PyBool True), (''quorum_type'', PyStr ''fixed''),
      (''quorum_count'', PyStr ''2'')] g"
    by (simp add: select_volume_bricks_to_bring_offline_def replica_two_fixed_two_def subscript_def)
  have nt: "get_volume_info replica_two_fixed_two \<noteq> None" "\<not> is_tiered_volume replica_two_fixed_two"
    by (simp_all add: replica_two_fixed_two_def)
  show ?thesis
    using r nt unfolding select_bricks_to_bring_offline_def Let_def v
    by (auto split: prod.splits sum.splits)
qed

section \<open>Properties of the status poller\<close>

lemma wait_loop_done:
  "\<not> counter < timeout \<Longrightarrow> wait_loop gvs v bs timeout counter n = (Inr False, n, counter)"
  by (subst wait_loop.simps) simp

lemma wait_loop_online:
  "counter < timeout \<Longrightarrow> are_bricks_online (gvs n) v bs = Inr (Some True) \<Longrightarrow>
   wait_loop gvs v bs timeout counter n = (Inr True, Suc n, counter)"
  by (subst wait_loop.simps) simp

lemma wait_loop_raise:
  "counter < timeout \<Longrightarrow> are_bricks_online (gvs n) v bs = Inl e \<Longrightarrow>
   wait_loop gvs v bs timeout counter n = (Inl e, Suc n, counter)"
  by (subst wait_loop.simps) simp

lemma wait_loop_retry:
  "counter < timeout \<Longrightarrow> are_bricks_online (gvs n) v bs = Inr s \<Longrightarrow> s \<noteq> Some True \<Longrightarrow>
   wait_loop gvs v bs timeout counter n = wait_loop gvs v bs timeout (counter + 10) (Suc n)"
  by (subst wait_loop.simps) simp

lemma ceiling_tenth: "\<lceil>real_of_int x / 10\<rceil> = (x + 9) div 10"
proof -
  have "\<lceil>real_of_int x / real_of_int 10\<rceil> = - (- x div 10)"
    by (rule ceiling_divide_eq_div)
  also have "\<dots> = (x + 9) div 10" by presburger
  finally show ?thesis by simp
qed

lemma polls_before_timeout:
  "k < nat \<lceil>real_of_int timeout / 10\<rceil> \<longleftrightarrow> 10 * int k < timeout"
  unfolding ceiling_tenth by (cases "0 < timeout") auto

lemma slept_covers_timeout: "timeout \<le> 10 * int (nat \<lceil>real_of_int timeout / 10\<rceil>)"
  unfolding ceiling_tenth by (cases "0 \<le> timeout") auto

text \<open>
  \<open>k\<close> polls in a row that return a result other than \<^verbatim>\<open>True\<close>, each begun before the
  timeout, move the loop on by \<open>k\<close> polls and \<open>10 k\<close> seconds.
\<close>
lemma wait_loop_skip:
  assumes "\<forall>j < k. \<exists>s. are_bricks_online (gvs (n + j)) v bs = Inr s \<and> s \<noteq> Some True"
    and "\<forall>j < k. counter + 10 * int j < timeout"
  shows "wait_loop gvs v bs timeout counter n =
         wait_loop gvs v bs timeout (counter + 10 * int k) (n + k)"
  using assms
proof (induction k arbitrary: counter n)
  case 0
  then show ?case by simp
next
  case (Suc k)
  from Suc.prems(1) obtain s where s: "are_bricks_online (gvs n) v bs = Inr s" "s \<noteq> Some True"
    by (metis add.right_neutral zero_less_Suc)
  from Suc.prems(2) have c: "counter < timeout" by force
  have 1: "\<forall>j < k. \<exists>s. are_bricks_online (gvs (Suc n + j)) v bs = Inr s \<and> s \<noteq> Some True"
  proof (intro allI impI)
    fix j assume "j < k"
    then have "Suc j < Suc k" by simp
    with Suc.prems(1) have "\<exists>s. are_bricks_online (gvs (n + Suc j)) v bs = Inr s \<and> s \<noteq> Some True"
      by blast
    then show "\<exists>s. are_bricks_online (gvs (Suc n + j)) v bs = Inr s \<and> s \<noteq> Some True" by simp
  qed
  have 2: "\<forall>j < k. (counter + 10) + 10 * int j < timeout"
  proof (intro allI impI)
    fix j assume "j < k"
    then have "Suc j < Suc k" by simp
    with Suc.prems(2) have "counter + 10 * int (Suc j) < timeout" by blast
    then show "(counter + 10) + 10 * int j < timeout" by simp
  qed
  have "wait_loop gvs v bs timeout counter n = wait_loop gvs v bs timeout (counter + 10) (Suc n)"
    using wait_loop_retry[of counter timeout gvs n v bs s] c s by simp
  also have "\<dots> = wait_loop gvs v bs timeout ((counter + 10) + 10 * int k) (Suc n + k)"
    using Suc.IH[OF 1 2] .
  finally show ?case by (simp add: algebra_simps)
qed

lemma wait_prefix:
  assumes "all_bricks \<noteq> []"
    and "\<forall>j < k. \<exists>s. are_bricks_online (gvs j) v all_bricks = Inr s \<and> s \<noteq> Some True"
    and "k \<le> nat \<lceil>real_of_int timeout / 10\<rceil>"
  shows "wait_for_bricks_to_be_online (Some all_bricks) gvs v timeout =
         wait_loop gvs v all_bricks timeout (10 * int k) k"
proof -
  have "\<forall>j < k. 0 + 10 * int j < timeout"
  proof (intro allI impI)
    fix j assume "j < k"
    with assms(3) have "j < nat \<lceil>real_of_int timeout / 10\<rceil>" by linarith
    then have "10 * int j < timeout" by (simp only: polls_before_timeout)
    then show "0 + 10 * int j < timeout" by simp
  qed
  from wait_loop_skip[of k gvs 0 v all_bricks 0 timeout] assms(2) this
  show ?thesis using assms(1) by (simp add: wait_for_bricks_to_be_online_def)
qed

lemma wait_online_at:
  assumes "all_bricks \<noteq> []" and "k < nat \<lceil>real_of_int timeout / 10\<rceil>"
    and "\<forall>j < k. \<exists>s. are_bricks_online (gvs j) v all_bricks = Inr s \<and> s \<noteq> Some True"
    and "are_bricks_online (gvs k) v all_bricks = Inr (Some True)"
  shows "wait_for_bricks_to_be_online (Some all_bricks) gvs v timeout
           = (Inr True, Suc k, 10 * int k)"
proof -
  have "10 * int k < timeout" using assms(2) polls_before_timeout by blast
  then show ?thesis
    using wait_prefix[OF assms(1,3), of timeout] assms(2,4)
      wait_loop_online[of "10 * int k" timeout gvs k v all_bricks]
    by simp
qed


lemma wait_never_online:
  assumes "all_bricks \<noteq> []"
    and "\<forall>j < nat \<lceil>real_of_int timeout / 10\<rceil>.
           \<exists>s. are_bricks_online (gvs j) v all_bricks = Inr s \<and> s \<noteq> Some True"
  shows "wait_for_bricks_to_be_online (Some all_bricks) gvs v timeout =
           (Inr False, nat \<lceil>real_of_int timeout / 10\<rceil>,
            10 * int (nat \<lceil>real_of_int timeout / 10\<rceil>))"
proof -
  define N where "N = nat \<lceil>real_of_int timeout / 10\<rceil>"
  have a: "\<forall>j < N. \<exists>s. are_bricks_online (gvs j) v all_bricks = Inr s \<and> s \<noteq> Some True"
    using assms(2) unfolding N_def .
  have b: "N \<le> nat \<lceil>real_of_int timeout / 10\<rceil>" unfolding N_def by (rule order_refl)
  have p: "wait_for_bricks_to_be_online (Some all_bricks) gvs v timeout =
      wait_loop gvs v all_bricks timeout (10 * int N) N"
    by (rule wait_prefix[OF assms(1) a b])
  have "timeout \<le> 10 * int N" unfolding N_def by (rule slept_covers_timeout)
  then have "\<not> 10 * int N < timeout" by linarith
  from wait_loop_done[OF this] p
  have "wait_for_bricks_to_be_online (Some all_bricks) gvs v timeout =
      (Inr False, N, 10 * int N)" by (simp only:)
  then show ?thesis unfolding N_def .
qed

text \<open>
  The loop cannot tell a failed query (\<^verbatim>\<open>None\<close>) from a report of an offline brick
  (\<^verbatim>\<open>False\<close>).
\<close>

lemma wait_loop_same:
  assumes "\<forall>k. are_bricks_online (gvs k) v bs = are_bricks_online (gvs' k) v bs \<or>
             (are_bricks_online (gvs k) v bs = Inr None \<and>
              are_bricks_online (gvs' k) v bs = Inr (Some False))"
  shows "wait_loop gvs v bs timeout counter n = wait_loop gvs' v bs timeout counter n"
proof (induction "nat (timeout - counter)" arbitrary: counter n rule: less_induct)
  case less
  show ?case
  proof (cases "counter < timeout")
    case False
    then show ?thesis by (simp add: wait_loop_done)
  next
    case True
    have m: "nat (timeout - (counter + 10)) < nat (timeout - counter)" using True by simp
    note IH = less[OF m, of "Suc n"]
    from assms have
      "are_bricks_online (gvs n) v bs = are_bricks_online (gvs' n) v bs \<or>
       (are_bricks_online (gvs n) v bs = Inr None \<and>
        are_bricks_online (gvs' n) v bs = Inr (Some False))" by blast
    then show ?thesis
    proof
      assume eq: "are_bricks_online (gvs n) v bs = are_bricks_online (gvs' n) v bs"
      show ?thesis
      proof (cases "are_bricks_online (gvs n) v bs")
        case (Inl e)
        then show ?thesis
          using eq True wait_loop_raise[of counter timeout gvs n v bs e]
            wait_loop_raise[of counter timeout gvs' n v bs e] by simp
      next
        case (Inr s)
        show ?thesis
        proof (cases "s = Some True")
          case True
          then show ?thesis
            using eq Inr \<open>counter < timeout\<close> wait_loop_online[of counter timeout gvs n v bs]
              wait_loop_online[of counter timeout gvs' n v bs] by simp
        next
          case False
          then show ?thesis
            using eq Inr True wait_loop_retry[of counter timeout gvs n v bs s]
              wait_loop_retry[of counter timeout gvs' n v bs s] IH by simp
        qed
      qed
    next
      assume "are_bricks_online (gvs n) v bs = Inr None \<and>
        are_bricks_online (gvs' n) v bs = Inr (Some False)"
      then show ?thesis
        using True wait_loop_retry[of counter timeout gvs n v bs None]
          wait_loop_retry[of counter timeout gvs' n v bs "Some False"] IH by simp
    qed
  qed
qed

lemma fetch_failure_none:
  "gvs k = None \<or> gvs k = Some [] \<Longrightarrow> are_bricks_online (gvs k) v bs = Inr None"
  by (auto simp: are_bricks_online_def)

lemma py_int_text_0: "py_int (PyStr ''0'') = Inr 0"
  by (simp add: int_of_text_def strip_def is_space_def int_literal_def is_digit_def digit_val_def)

lemma online_report:
  "are_bricks_online (Some (one_brick_status (PyStr ''1''))) ''testvol'' [''n1:/b1'']
     = Inr (Some True)"
  by (simp add: are_bricks_online_def one_brick_status_def subscript_def
      py_int_text_1 del: py_int.simps)

lemma offline_report:
  "are_bricks_online (Some (one_brick_status (PyStr ''0''))) ''testvol'' [''n1:/b1'']
     = Inr (Some False)"
  by (simp add: are_bricks_online_def one_brick_status_def subscript_def
      py_int_text_0 del: py_int.simps)



lemma offline_now: "are_bricks_online (always_offline n) ''testvol'' [''n1:/b1''] = Inr (Some False)"
  by (simp add: always_offline_def offline_report)

lemma unavailable_now: "are_bricks_online (never_available n) v bs = Inr None"
  by (simp add: are_bricks_online_def never_available_def)


lemma polls_20: "nat \<lceil>real_of_int 20 / 10\<rceil> = 2" by simp



text \<open>
  Claim C4, amended. For a volume whose brick list is available and not empty: a status
  query that fails (the snapshot is \<^verbatim>\<open>None\<close> or empty) makes
  \<^verbatim>\<open>are_bricks_online\<close> return \<^verbatim>\<open>None\<close>, which the wait treats like \<^verbatim>\<open>False\<close>:
  it sleeps and asks again. A query that reports every brick online after \<open>k\<close> failed
  queries, before the timeout, makes the wait return \<^verbatim>\<open>True\<close> after \<open>k + 1\<close> queries
  and \<open>10 k\<close> seconds; when every query up to the timeout fails it returns \<^verbatim>\<open>False\<close>
  after \<open>\<lceil>timeout / 10\<rceil>\<close> queries; and a source that reports an offline brick wherever
  another source fails, and answers like it otherwise, gives the same result, the same
  number of queries and the same time slept.
\<close>

theorem fetch_failure_is_polled_again:
  assumes "get_all_bricks = Some all_bricks" and "all_bricks \<noteq> []"
  shows "(\<forall>k. gvs k = None \<or> gvs k = Some [] \<longrightarrow>
            are_bricks_online (gvs k) v all_bricks = Inr None) \<and>
         (\<forall>k. k < nat \<lceil>real_of_int timeout / 10\<rceil> \<and>
              (\<forall>j < k. gvs j = None \<or> gvs j = Some []) \<and>
              are_bricks_online (gvs k) v all_bricks = Inr (Some True) \<longrightarrow>
            wait_for_bricks_to_be_online get_all_bricks gvs v timeout
              = (Inr True, Suc k, 10 * int k)) \<and>
         ((\<forall>j < nat \<lceil>real_of_int timeout / 10\<rceil>. gvs j = None \<or> gvs j = Some []) \<longrightarrow>
            wait_for_bricks_to_be_online get_all_bricks gvs v timeout =
              (Inr False, nat \<lceil>real_of_int timeout / 10\<rceil>,
               10 * int (nat \<lceil>real_of_int timeout / 10\<rceil>))) \<and>
         (\<forall>gvs'.
            (\<forall>k. are_bricks_online (gvs k) v all_bricks = are_bricks_online (gvs' k) v all_bricks \<or>
                 (are_bricks_online (gvs k) v all_bricks = Inr None \<and>
                  are_bricks_online (gvs' k) v all_bricks = Inr (Some False))) \<longrightarrow>
            wait_for_bricks_to_be_online get_all_bricks gvs v timeout =
            wait_for_bricks_to_be_online get_all_bricks gvs' v timeout)"
proof (intro conjI allI impI)
  fix k assume "gvs k = None \<or> gvs k = Some []"
  then show "are_bricks_online (gvs k) v all_bricks = Inr None" by (rule fetch_failure_none)
next
  fix k
  assume h: "k < nat \<lceil>real_of_int timeout / 10\<rceil> \<and>
              (\<forall>j < k. gvs j = None \<or> gvs j = Some []) \<and>
              are_bricks_online (gvs k) v all_bricks = Inr (Some True)"
  then have h1: "k < nat \<lceil>real_of_int timeout / 10\<rceil>"
    and h3: "are_bricks_online (gvs k) v all_bricks = Inr (Some True)" by blast+
  have h2: "\<forall>j < k. \<exists>s. are_bricks_online (gvs j) v all_bricks = Inr s \<and> s \<noteq> Some True"
  proof (intro allI impI)
    fix j assume "j < k"
    with h have "gvs j = None \<or> gvs j = Some []" by blast
    then have "are_bricks_online (gvs j) v all_bricks = Inr None" by (rule fetch_failure_none)
    then show "\<exists>s. are_bricks_online (gvs j) v all_bricks = Inr s \<and> s \<noteq> Some True" by simp
  qed
  show "wait_for_bricks_to_be_online get_all_bricks gvs v timeout = (Inr True, Suc k, 10 * int k)"
    using wait_online_at[OF assms(2) h1 h2 h3] assms(1) by simp
next
  assume h: "\<forall>j < nat \<lceil>real_of_int timeout / 10\<rceil>. gvs j = None \<or> gvs j = Some []"
  have h2: "\<forall>j < nat \<lceil>real_of_int timeout / 10\<rceil>.
      \<exists>s. are_bricks_online (gvs j) v all_bricks = Inr s \<and> s \<noteq> Some True"
  proof (intro allI impI)
    fix j assume "j < nat \<lceil>real_of_int timeout / 10\<rceil>"
    with h have "gvs j = None \<or> gvs j = Some []" by blast
    then have "are_bricks_online (gvs j) v all_bricks = Inr None" by (rule fetch_failure_none)
    then show "\<exists>s. are_bricks_online (gvs j) v all_bricks = Inr s \<and> s \<noteq> Some True" by simp
  qed
  show "wait_for_bricks_to_be_online get_all_bricks gvs v timeout =
              (Inr False, nat \<lceil>real_of_int timeout / 10\<rceil>,
               10 * int (nat \<lceil>real_of_int timeout / 10\<rceil>))"
    using wait_never_online[OF assms(2) h2] assms(1) by (simp only:)
next
  fix gvs'
  assume "\<forall>k. are_bricks_online (gvs k) v all_bricks = are_bricks_online (gvs' k) v all_bricks \<or>
                 (are_bricks_online (gvs k) v all_bricks = Inr None \<and>
                  are_bricks_online (gvs' k) v all_bricks = Inr (Some False))"
  from wait_loop_same[OF this, of timeout 0 0]
  show "wait_for_bricks_to_be_online get_all_bricks gvs v timeout =
        wait_for_bricks_to_be_online get_all_bricks gvs' v timeout"
    using assms by (simp add: wait_for_bricks_to_be_online_def)
qed

theorem fetch_failure_is_polled_again_witness:
  "are_bricks_online (failing_then_online 0) ''testvol'' [''n1:/b1''] = Inr None \<and>
   wait_for_bricks_to_be_online (Some [''n1:/b1'']) failing_then_online ''testvol'' 20 =
     (Inr True, 2, 10) \<and>
   wait_for_bricks_to_be_online (Some [''n1:/b1'']) never_available ''testvol'' 20 =
     (Inr False, 2, 20) \<and>
   wait_for_bricks_to_be_online (Some [''n1:/b1'']) failing_then_online ''testvol'' 20 =
   wait_for_bricks_to_be_online (Some [''n1:/b1'']) online_after_one ''testvol'' 20"
proof -
  have ne: "[''n1:/b1''] \<noteq> []" by simp
  note T = fetch_failure_is_polled_again[OF refl ne]
  have f0: "failing_then_online 0 = None \<or> failing_then_online 0 = Some []"
    by (simp add: failing_then_online_def)
  have 1: "are_bricks_online (failing_then_online 0) ''testvol'' [''n1:/b1''] = Inr None"
    using T[where gvs = failing_then_online and v = "''testvol''" and timeout = 20] f0 by blast
  have pre: "\<forall>j < 1. failing_then_online j = None \<or> failing_then_online j = Some []"
    by (simp add: failing_then_online_def)
  have o1: "are_bricks_online (failing_then_online 1) ''testvol'' [''n1:/b1''] = Inr (Some True)"
    by (simp add: failing_then_online_def online_report)
  have 2: "wait_for_bricks_to_be_online (Some [''n1:/b1'']) failing_then_online ''testvol'' 20 =
     (Inr True, 2, 10)"
  proof -
    from T[where gvs = failing_then_online and v = "''testvol''" and timeout = 20]
    have "\<forall>k. k < nat \<lceil>real_of_int 20 / 10\<rceil> \<and>
              (\<forall>j < k. failing_then_online j = None \<or> failing_then_online j = Some []) \<and>
              are_bricks_online (failing_then_online k) ''testvol'' [''n1:/b1''] = Inr (Some True) \<longrightarrow>
            wait_for_bricks_to_be_online (Some [''n1:/b1'']) failing_then_online ''testvol'' 20
              = (Inr True, Suc k, 10 * int k)"
      by blast
    from this[rule_format, of 1] pre o1 polls_20 show ?thesis by simp
  qed
  have na: "\<forall>j < nat \<lceil>real_of_int 20 / 10\<rceil>. never_available j = None \<or> never_available j = Some []"
    by (simp add: never_available_def)
  have 3: "wait_for_bricks_to_be_online (Some [''n1:/b1'']) never_available ''testvol'' 20 =
     (Inr False, 2, 20)"
  proof -
    from T[where gvs = never_available and v = "''testvol''" and timeout = 20] na
    have "wait_for_bricks_to_be_online (Some [''n1:/b1'']) never_available ''testvol'' 20 =
              (Inr False, nat \<lceil>real_of_int 20 / 10\<rceil>,
               10 * int (nat \<lceil>real_of_int 20 / 10\<rceil>))"
      by blast
    then show ?thesis unfolding polls_20 by simp
  qed
  have rel: "\<forall>k. are_bricks_online (failing_then_online k) ''testvol'' [''n1:/b1''] =
                 are_bricks_online (online_after_one k) ''testvol'' [''n1:/b1''] \<or>
                 (are_bricks_online (failing_then_online k) ''testvol'' [''n1:/b1''] = Inr None \<and>
                  are_bricks_online (online_after_one k) ''testvol'' [''n1:/b1'']
                    = Inr (Some False))"
    by (simp add: failing_then_online_def online_after_one_def offline_report
        are_bricks_online_def[of None])
  have 4: "wait_for_bricks_to_be_online (Some [''n1:/b1'']) failing_then_online ''testvol'' 20 =
   wait_for_bricks_to_be_online (Some [''n1:/b1'']) online_after_one ''testvol'' 20"
    using T[where gvs = failing_then_online and v = "''testvol''" and timeout = 20] rel by blast
  show ?thesis using 1 2 3 4 by blast
qed

text \<open>
  Claim C4 as stated fails: with a status query that fails every time and a timeout of 20
  the wait asks twice (the failure at the first query is followed by a second query) and
  returns \<^verbatim>\<open>False\<close>, exactly as for a brick that stays offline.
\<close>

theorem fetch_failure_counterexample:
  "are_bricks_online (never_available 0) ''testvol'' [''n1:/b1''] = Inr None \<and>
   are_bricks_online (never_available 1) ''testvol'' [''n1:/b1''] = Inr None \<and>
   wait_for_bricks_to_be_online (Some [''n1:/b1'']) never_available ''testvol'' 20 =
     (Inr False, 2, 20) \<and>
   wait_for_bricks_to_be_online (Some [''n1:/b1'']) always_offline ''testvol'' 20 =
     (Inr False, 2, 20)"
proof -
  have a: "\<forall>j < nat \<lceil>real_of_int 20 / 10\<rceil>.
      \<exists>s. are_bricks_online (never_available j) ''testvol'' [''n1:/b1''] = Inr s \<and> s \<noteq> Some True"
    using unavailable_now by simp
  have b: "\<forall>j < nat \<lceil>real_of_int 20 / 10\<rceil>.
      \<exists>s. are_bricks_online (always_offline j) ''testvol'' [''n1:/b1''] = Inr s \<and> s \<noteq> Some True"
    using offline_now by simp
  have ne: "[''n1:/b1''] \<noteq> []" by simp
  show ?thesis
    using wait_never_online[OF ne a] wait_never_online[OF ne b] unavailable_now
    unfolding polls_20 by simp
qed

end
